theory Spec2Isabelle
  imports Complex_Main
begin

section \<open>Data model of the exporter (bim/export_ifc.py)\<close>

text \<open>
  The exporter is glue between the Blender scene and an IFC file. The model keeps the
  data the code reads in a record \<open>world\<close>, turns every exception the code can meet
  into a value of \<open>exn\<close>, and records every call of an API function in a log. What an API
  call does to the world is not in the sources: it is a parameter (\<open>effect\<close>), and every
  theorem holds for each choice of it.
\<close>

datatype exn = ReferenceError | RuntimeError | IndexError | ValueError | AttributeError

text \<open>A 4x4 numpy array, read as \<open>m i j\<close> for row \<open>i\<close> and column \<open>j\<close> below 4.\<close>

type_synonym matrix = "nat \<Rightarrow> nat \<Rightarrow> real"

text \<open>
  A value of the id map or of the set of edited objects is a Python wrapper of a Blender
  datablock: a material or an object, known by a handle. The wrapper keeps its Python type
  when the datablock is freed; reading an attribute of a freed datablock raises
  ReferenceError.
\<close>

datatype ref = MaterialRef nat | ObjectRef nat

record blender_object =
  obj_name :: string
  obj_type :: string
  matrix_world :: matrix
  ifc_definition_id :: nat
  blender_offset_type :: string
  users_collection :: "string list"

record collection =
  coll_name :: string
  children :: "string list"

text \<open>
  An IFC entity, as far as the exporter looks at it: \<open>classes\<close> lists the names for which
  \<open>is_a\<close> answers true, \<open>ObjectPlacement\<close> is \<open>None\<close> when the entity has no such attribute
  and otherwise holds the matrix that \<open>ifcopenshell.util.placement.get_local_placement\<close>
  computes from it, \<open>container\<close> and \<open>aggregate\<close> are the ids of the entities that
  \<open>ifcopenshell.util.element.get_container\<close> and \<open>get_aggregate\<close> return.
\<close>

record element =
  classes :: "string list"
  ObjectPlacement :: "matrix option"
  container :: "nat option"
  aggregate :: "nat option"

record world =
  objects :: "(nat \<times> blender_object) list"
  materials :: "nat list"
  collections :: "collection list"
  ifc_file :: "nat \<rightharpoonup> element"
  schema :: string
  file_unit_scale :: real
  id_map :: "(nat \<times> ref) list"
  edited_objs :: "ref option list"
  has_blender_offset :: bool
  blender_eastings :: string
  blender_northings :: string
  blender_orthogonal_height :: string
  blender_x_axis_abscissa :: string
  blender_x_axis_ordinate :: string
  selected_objects :: "nat list"
  qto_methods :: string
  qto_name :: string
  prop_name :: string
  qto_result :: string

datatype api_call =
    EditObjectPlacement nat
  | AssignContainer nat nat
  | AssignObject nat nat
  | UnlinkElement nat
  | RemoveProduct nat
  | UpdateStyleColours ref
  | UpdateRepresentation string
  | AddQto nat string
  | EditQto nat string real
  | PsetDataLoad nat

text \<open>
  The code outside the sources: the effect of an API call on the world (it may raise, and
  it may return a value, here the id of the entity it made), the geolocation transform,
  Python's \<open>float\<close> of a string (\<open>None\<close> is ValueError), Python's \<open>str\<close> of a float, and
  the quantity helpers.
\<close>

record ext =
  effect :: "api_call \<Rightarrow> world \<Rightarrow> (exn + nat) \<times> world"
  global2local :: "matrix \<Rightarrow> real \<Rightarrow> real \<Rightarrow> real \<Rightarrow> real \<Rightarrow> real \<Rightarrow> matrix"
  py_float :: "string \<Rightarrow> real option"
  py_str :: "real \<Rightarrow> string"
  calculate_height :: "nat \<Rightarrow> world \<Rightarrow> real"
  calculate_volumes :: "nat list \<Rightarrow> world \<Rightarrow> real"
  calculate_formwork_area :: "nat list \<Rightarrow> world \<Rightarrow> real"
  calculate_edges_lengths :: "nat list \<Rightarrow> world \<Rightarrow> real"
  calculate_faces_areas :: "nat list \<Rightarrow> world \<Rightarrow> real"

record state =
  calls :: "api_call list"
  world :: world

definition api :: "ext \<Rightarrow> api_call \<Rightarrow> state \<Rightarrow> (exn + nat) \<times> state" where
  "api X c s =
     (case effect X c (world s) of
        (r, w') \<Rightarrow> (r, \<lparr>calls = calls s @ [c], world = w'\<rparr>))"

subsection \<open>Reading the scene and the file\<close>

definition deref :: "world \<Rightarrow> nat \<Rightarrow> exn + blender_object" where
  "deref w n =
     (case map_of (objects w) n of
        None \<Rightarrow> Inl ReferenceError
      | Some ob \<Rightarrow> Inr ob)"

definition by_id :: "world \<Rightarrow> nat \<Rightarrow> exn + element" where
  "by_id w i =
     (case ifc_file w i of
        None \<Rightarrow> Inl RuntimeError
      | Some e \<Rightarrow> Inr e)"

definition is_a :: "element \<Rightarrow> string \<Rightarrow> bool" where
  "is_a e c = (c \<in> set (classes e))"

definition collections_get :: "world \<Rightarrow> string \<Rightarrow> collection option" where
  "collections_get w n = find (\<lambda>c. coll_name c = n) (collections w)"

definition objects_get :: "world \<Rightarrow> string \<Rightarrow> (nat \<times> blender_object) option" where
  "objects_get w n = find (\<lambda>p. obj_name (snd p) = n) (objects w)"

subsection \<open>numpy.allclose\<close>

text \<open>
  \<open>numpy.allclose(a, b, rtol=1e-05, atol=1e-08)\<close> holds when every pair of entries
  satisfies \<open>absolute(a - b) <= atol + rtol * absolute(b)\<close>. The entries are taken as
  real numbers here.
\<close>

definition isclose :: "real \<Rightarrow> real \<Rightarrow> real \<Rightarrow> real \<Rightarrow> bool" where
  "isclose a b rtol atol = (\<bar>a - b\<bar> \<le> atol + rtol * \<bar>b\<bar>)"

definition allclose :: "matrix \<Rightarrow> matrix \<Rightarrow> real \<Rightarrow> real \<Rightarrow> bool" where
  "allclose a b rtol atol =
     list_all (\<lambda>i. list_all (\<lambda>j. isclose (a i j) (b i j) rtol atol) [0..<4]) [0..<4]"

definition default_rtol :: real where
  "default_rtol = 1 / 100000"

subsection \<open>IfcExporter.sync_object_placement\<close>

text \<open>\<open>m[i][j] *= s\<close>\<close>

definition scale_entry :: "matrix \<Rightarrow> nat \<Rightarrow> nat \<Rightarrow> real \<Rightarrow> matrix" where
  "scale_entry m i j s = m(i := (m i)(j := m i j * s))"

text \<open>Lines 125 to 127: the three translation entries are multiplied by the unit scale.\<close>

definition scale_translation :: "matrix \<Rightarrow> real \<Rightarrow> matrix" where
  "scale_translation m s = scale_entry (scale_entry (scale_entry m 0 3 s) 1 3 s) 2 3 s"

text \<open>
  Lines 125 to 138: the matrix that is compared with the object's world matrix. The five
  georeference properties are strings, converted by \<open>float\<close> in the order of the call.
\<close>

definition ifc_matrix_of :: "ext \<Rightarrow> real \<Rightarrow> world \<Rightarrow> blender_object \<Rightarrow> matrix \<Rightarrow> exn + matrix" where
  "ifc_matrix_of X unit_scale w obj m =
     (let ifc_matrix = scale_translation m unit_scale in
      if has_blender_offset w \<and> blender_offset_type obj = ''OBJECT_PLACEMENT'' then
        (case py_float X (blender_eastings w) of None \<Rightarrow> Inl ValueError | Some e \<Rightarrow>
        (case py_float X (blender_northings w) of None \<Rightarrow> Inl ValueError | Some n \<Rightarrow>
        (case py_float X (blender_orthogonal_height w) of None \<Rightarrow> Inl ValueError | Some h \<Rightarrow>
        (case py_float X (blender_x_axis_abscissa w) of None \<Rightarrow> Inl ValueError | Some xa \<Rightarrow>
        (case py_float X (blender_x_axis_ordinate w) of None \<Rightarrow> Inl ValueError | Some xo \<Rightarrow>
           Inr (global2local X ifc_matrix
                  (e * unit_scale) (n * unit_scale) (h * unit_scale) xa xo))))))
      else Inr ifc_matrix)"

text \<open>
  The function reads the world and makes at most one API call, as its last action: the
  model returns that call (\<open>None\<close> when it makes none).
\<close>

definition sync_object_placement :: "ext \<Rightarrow> real \<Rightarrow> world \<Rightarrow> nat \<Rightarrow> exn + api_call option" where
  "sync_object_placement X unit_scale w r =
     (case deref w r of Inl e \<Rightarrow> Inl e | Inr obj \<Rightarrow>
     (let blender_matrix = matrix_world obj in
     (case by_id w (ifc_definition_id obj) of Inl e \<Rightarrow> Inl e | Inr element \<Rightarrow>
     (case ObjectPlacement element of None \<Rightarrow> Inr None | Some placement \<Rightarrow>
     (case ifc_matrix_of X unit_scale w obj placement of Inl e \<Rightarrow> Inl e | Inr ifc_matrix \<Rightarrow>
        if \<not> allclose ifc_matrix blender_matrix default_rtol (1 / 10000)
        then Inr (Some (EditObjectPlacement r))
        else Inr None)))))"

subsection \<open>IfcExporter.sync_object_container\<close>

text \<open>
  Lines 152 to 162: the name of the parent collection. \<open>Inr None\<close> is the early return
  of the bare \<open>except\<close>: it catches the AttributeError of \<open>element_collection.name\<close> when
  the object has no collection of its own name, and the IndexError of \<open>[...][0]\<close> when no
  collection has that collection as a child. The IndexError of
  \<open>obj.users_collection[0]\<close> is outside the \<open>try\<close> and is raised.
\<close>

definition parent_collection_of :: "world \<Rightarrow> blender_object \<Rightarrow> element \<Rightarrow> exn + string option" where
  "parent_collection_of w obj element =
     (let element_collection = collections_get w (obj_name obj) in
      if (is_a element ''IfcElement'' \<and> element_collection \<noteq> None)
         \<or> is_a element ''IfcSpatialStructureElement''
         \<or> is_a element ''IfcGrid''
      then
        (case element_collection of
           None \<Rightarrow> Inr None
         | Some ec \<Rightarrow>
             (case find (\<lambda>c. coll_name ec \<in> set (children c)) (collections w) of
                None \<Rightarrow> Inr None
              | Some parent_collection \<Rightarrow> Inr (Some (coll_name parent_collection))))
      else
        (case users_collection obj of
           [] \<Rightarrow> Inl IndexError
         | parent_collection # _ \<Rightarrow> Inr (Some parent_collection)))"

text \<open>
  Lines 143 to 167: everything before the final comparison. The result is the handle of
  the parent object, the id of the parent entity, the parent entity and the element;
  \<open>Inr None\<close> is one of the early returns.
\<close>

definition resolve_parent :: "world \<Rightarrow> nat \<Rightarrow> exn + (nat \<times> nat \<times> element \<times> element) option" where
  "resolve_parent w r =
     (case deref w r of Inl e \<Rightarrow> Inl e | Inr obj \<Rightarrow>
     (case by_id w (ifc_definition_id obj) of Inl e \<Rightarrow> Inl e | Inr element \<Rightarrow>
        if (if schema w = ''IFC2X3'' then is_a element ''IfcProject''
            else is_a element ''IfcContext'')
        then Inr None
        else
          (case parent_collection_of w obj element of
             Inl e \<Rightarrow> Inl e
           | Inr None \<Rightarrow> Inr None
           | Inr (Some parent_collection) \<Rightarrow>
               (case objects_get w parent_collection of
                  None \<Rightarrow> Inr None
                | Some (parent_obj, pob) \<Rightarrow>
                    if ifc_definition_id pob = 0 then Inr None
                    else
                      (case by_id w (ifc_definition_id pob) of
                         Inl e \<Rightarrow> Inl e
                       | Inr parent \<Rightarrow>
                           Inr (Some (parent_obj, ifc_definition_id pob, parent, element)))))))"

text \<open>Lines 169 to 177: the final comparison, and the call it leads to.\<close>

definition assign_decision :: "nat \<Rightarrow> nat \<times> nat \<times> element \<times> element \<Rightarrow> api_call option" where
  "assign_decision r p =
     (case p of (parent_obj, parent_id, parent, element) \<Rightarrow>
        if is_a parent ''IfcSpatialStructureElement''
           \<and> \<not> is_a element ''IfcSpatialStructureElement''
        then
          (if Some parent_id \<noteq> container element
           then Some (AssignContainer parent_obj r) else None)
        else if Some parent_id \<noteq> aggregate element
        then Some (AssignObject parent_obj r)
        else None)"

text \<open>
  As for the placement, the function makes at most one API call, as its last action, and
  the model returns it. The argument \<open>guid\<close> is not used by the code.
\<close>

definition sync_object_container :: "world \<Rightarrow> nat \<Rightarrow> nat \<Rightarrow> exn + api_call option" where
  "sync_object_container w guid r =
     (case resolve_parent w r of
        Inl e \<Rightarrow> Inl e
      | Inr None \<Rightarrow> Inr None
      | Inr (Some p) \<Rightarrow> Inr (assign_decision r p))"

subsection \<open>IfcExporter.should_delete\<close>

definition should_delete :: "world \<Rightarrow> ref \<Rightarrow> bool" where
  "should_delete w obj =
     (case obj of
        ObjectRef n \<Rightarrow> map_of (objects w) n = None
      | MaterialRef m \<Rightarrow> m \<notin> set (materials w))"

subsection \<open>Running calls\<close>

text \<open>A call whose result is dropped: what is left is whether it raised.\<close>

definition run_call :: "ext \<Rightarrow> api_call \<Rightarrow> state \<Rightarrow> exn option \<times> state" where
  "run_call X c s =
     (case api X c s of
        (Inl e, s') \<Rightarrow> (Some e, s')
      | (Inr v, s') \<Rightarrow> (None, s'))"

definition perform :: "ext \<Rightarrow> exn + api_call option \<Rightarrow> state \<Rightarrow> exn option \<times> state" where
  "perform X d s =
     (case d of
        Inl e \<Rightarrow> (Some e, s)
      | Inr None \<Rightarrow> (None, s)
      | Inr (Some c) \<Rightarrow> run_call X c s)"

text \<open>\<open>except ReferenceError: pass\<close>\<close>

definition except_ReferenceError :: "exn option \<times> state \<Rightarrow> exn option \<times> state" where
  "except_ReferenceError r =
     (case r of
        (Some e, s) \<Rightarrow> if e = ReferenceError then (None, s) else (Some e, s)
      | (None, s) \<Rightarrow> (None, s))"

subsection \<open>IfcExporter.sync_object_placements_and_deletions\<close>

text \<open>Lines 94 and 95, the two calls in the \<open>try\<close> block, on the state as it evolves.\<close>

definition sync_object :: "ext \<Rightarrow> real \<Rightarrow> nat \<Rightarrow> nat \<Rightarrow> state \<Rightarrow> exn option \<times> state" where
  "sync_object X unit_scale i n s =
     (case perform X (sync_object_placement X unit_scale (world s) n) s of
        (Some e, s1) \<Rightarrow> (Some e, s1)
      | (None, s1) \<Rightarrow> perform X (sync_object_container (world s1) i n) s1)"

text \<open>
  Lines 90 to 99, over the items of the id map as they are when the loop starts. A
  material ends the iteration at \<open>continue\<close>, before the deletion check. An exception
  other than ReferenceError ends the loop.
\<close>

fun sync_loop :: "ext \<Rightarrow> real \<Rightarrow> (nat \<times> ref) list \<Rightarrow> nat list \<Rightarrow> state \<Rightarrow> exn option \<times> nat list \<times> state" where
  "sync_loop X unit_scale [] to_delete s = (None, to_delete, s)"
| "sync_loop X unit_scale ((i, MaterialRef m) # items) to_delete s =
     sync_loop X unit_scale items to_delete s"
| "sync_loop X unit_scale ((i, ObjectRef n) # items) to_delete s =
     (case except_ReferenceError (sync_object X unit_scale i n s) of
        (Some e, s1) \<Rightarrow> (Some e, to_delete, s1)
      | (None, s1) \<Rightarrow>
          sync_loop X unit_scale items
            (if should_delete (world s1) (ObjectRef n) then to_delete @ [i] else to_delete) s1)"

text \<open>Lines 101 to 104.\<close>

fun remove_loop :: "ext \<Rightarrow> nat list \<Rightarrow> state \<Rightarrow> exn option \<times> state" where
  "remove_loop X [] s = (None, s)"
| "remove_loop X (i # to_delete) s =
     (case by_id (world s) i of
        Inl e \<Rightarrow> (Some e, s)
      | Inr product \<Rightarrow>
          (case run_call X (UnlinkElement i) s of
             (Some e, s1) \<Rightarrow> (Some e, s1)
           | (None, s1) \<Rightarrow>
               (case run_call X (RemoveProduct i) s1 of
                  (Some e, s2) \<Rightarrow> (Some e, s2)
                | (None, s2) \<Rightarrow> remove_loop X to_delete s2)))"

definition sync_object_placements_and_deletions :: "ext \<Rightarrow> state \<Rightarrow> exn option \<times> state" where
  "sync_object_placements_and_deletions X s =
     (let unit_scale = file_unit_scale (world s) in
      case sync_loop X unit_scale (id_map (world s)) [] s of
        (Some e, to_delete, s1) \<Rightarrow> (Some e, s1)
      | (None, to_delete, s1) \<Rightarrow> remove_loop X to_delete s1)"

subsection \<open>IfcExporter.sync_edited_objects\<close>

text \<open>
  Lines 111 to 114. \<open>isinstance\<close> looks at the Python type of the wrapper only, so a
  freed material still takes the first branch; \<open>obj.name\<close> raises ReferenceError for a
  freed object, before the operator is called.
\<close>

definition update_edited :: "ext \<Rightarrow> ref \<Rightarrow> state \<Rightarrow> exn option \<times> state" where
  "update_edited X obj s =
     (case obj of
        MaterialRef m \<Rightarrow> run_call X (UpdateStyleColours obj) s
      | ObjectRef n \<Rightarrow>
          (case deref (world s) n of
             Inl e \<Rightarrow> (Some e, s)
           | Inr ob \<Rightarrow> run_call X (UpdateRepresentation (obj_name ob)) s))"

text \<open>
  Lines 107 to 116, over a copy of the set, in the order Python iterates it. An entry
  \<open>None\<close> is a falsy entry, which \<open>if not obj: continue\<close> skips.
\<close>

fun edited_loop :: "ext \<Rightarrow> ref option list \<Rightarrow> state \<Rightarrow> exn option \<times> state" where
  "edited_loop X [] s = (None, s)"
| "edited_loop X (None # objs) s = edited_loop X objs s"
| "edited_loop X (Some obj # objs) s =
     (case except_ReferenceError (update_edited X obj s) of
        (Some e, s1) \<Rightarrow> (Some e, s1)
      | (None, s1) \<Rightarrow> edited_loop X objs s1)"

definition sync_edited_objects :: "ext \<Rightarrow> state \<Rightarrow> exn option \<times> state" where
  "sync_edited_objects X s =
     (case edited_loop X (edited_objs (world s)) s of
        (Some e, s1) \<Rightarrow> (Some e, s1)
      | (None, s1) \<Rightarrow> (None, s1\<lparr>world := (world s1)\<lparr>edited_objs := []\<rparr>\<rparr>))"

section \<open>Quantity take-off operators (bim/module/qto/operator.py)\<close>

text \<open>
  Python's \<open>round(x, n)\<close> on a real number: the nearest multiple of \<open>10 ^ - n\<close>, a tie
  going to the even one.
\<close>

definition py_round :: "real \<Rightarrow> nat \<Rightarrow> real" where
  "py_round x n =
     (let y = x * 10 ^ n; f = \<lfloor>y\<rfloor>; d = y - of_int f in
      (if d < 1 / 2 then of_int f
       else if 1 / 2 < d then of_int (f + 1)
       else if even f then of_int f
       else of_int (f + 1)) / 10 ^ n)"

text \<open>
  \<open>[o for o in context.selected_objects if o.type == "MESH"]\<close>: reading the type of a
  freed object raises.
\<close>

fun mesh_objects :: "world \<Rightarrow> nat list \<Rightarrow> exn + nat list" where
  "mesh_objects w [] = Inr []"
| "mesh_objects w (obj # objs) =
     (case deref w obj of
        Inl e \<Rightarrow> Inl e
      | Inr ob \<Rightarrow>
          (case mesh_objects w objs of
             Inl e \<Rightarrow> Inl e
           | Inr ms \<Rightarrow> Inr (if obj_type ob = ''MESH'' then obj # ms else ms)))"

text \<open>
  The three operators differ in the helper they call: \<open>calculate_execute\<close> is the body
  they share, and the operator's result is the set it returns.
\<close>

definition calculate_execute :: "(nat list \<Rightarrow> world \<Rightarrow> real) \<Rightarrow> ext \<Rightarrow> world \<Rightarrow> exn + string set \<times> world" where
  "calculate_execute helper X context =
     (case mesh_objects context (selected_objects context) of
        Inl e \<Rightarrow> Inl e
      | Inr objs \<Rightarrow>
          (let result = helper objs context in
           Inr ({''FINISHED''}, context\<lparr>qto_result := py_str X (py_round result 3)\<rparr>)))"

definition CalculateEdgeLengths_execute :: "ext \<Rightarrow> world \<Rightarrow> exn + string set \<times> world" where
  "CalculateEdgeLengths_execute X context =
     calculate_execute (calculate_edges_lengths X) X context"

definition CalculateFaceAreas_execute :: "ext \<Rightarrow> world \<Rightarrow> exn + string set \<times> world" where
  "CalculateFaceAreas_execute X context =
     calculate_execute (calculate_faces_areas X) X context"

definition CalculateObjectVolumes_execute :: "ext \<Rightarrow> world \<Rightarrow> exn + string set \<times> world" where
  "CalculateObjectVolumes_execute X context =
     calculate_execute (calculate_volumes X) X context"

subsection \<open>QuantifyObjects._execute\<close>





section \<open>Assigning a type (core/type.py)\<close>

text \<open>
  \<open>assign_type\<close> works through the interfaces it is given only. Elements, types,
  representations and objects are known by a number; the state behind the interfaces is
  of any type \<open>'s\<close>, each method may change it, and each call is logged.
\<close>

datatype tool_call =
    Run_assign_type nat nat
  | Get_body_representation nat
  | Get_any_representation nat
  | Get_object nat
  | Has_dynamic_voids nat
  | Switch_representation nat nat bool bool bool
  | Disable_editing nat

record 's tools =
  run_assign_type :: "nat \<Rightarrow> nat \<Rightarrow> 's \<Rightarrow> 's"
  get_body_representation :: "nat \<Rightarrow> 's \<Rightarrow> nat option \<times> 's"
  get_any_representation :: "nat \<Rightarrow> 's \<Rightarrow> nat option \<times> 's"
  get_object :: "nat \<Rightarrow> 's \<Rightarrow> nat \<times> 's"
  has_dynamic_voids :: "nat \<Rightarrow> 's \<Rightarrow> bool \<times> 's"
  switch_representation :: "nat \<Rightarrow> nat \<Rightarrow> bool \<Rightarrow> bool \<Rightarrow> bool \<Rightarrow> 's \<Rightarrow> 's"
  disable_editing :: "nat \<Rightarrow> 's \<Rightarrow> 's"

text \<open>Lines 24 to 26: the body representation, or else any representation.\<close>

definition choose_representation :: "'s tools \<Rightarrow> nat \<Rightarrow> tool_call list \<times> 's \<Rightarrow> nat option \<times> tool_call list \<times> 's" where
  "choose_representation T element ls =
     (case ls of (tr, s) \<Rightarrow>
     (case get_body_representation T element s of (repr, s1) \<Rightarrow>
        if repr = None
        then
          (case get_any_representation T element s1 of (repr, s2) \<Rightarrow>
             (repr,
              tr @ [Get_body_representation element, Get_any_representation element], s2))
        else (repr, tr @ [Get_body_representation element], s1)))"

text \<open>Lines 28 to 36: the switch, made when there is a representation.\<close>

definition switch_if :: "'s tools \<Rightarrow> nat \<Rightarrow> nat option \<Rightarrow> tool_call list \<times> 's \<Rightarrow> tool_call list \<times> 's" where
  "switch_if T obj repr ls =
     (case ls of (tr, s) \<Rightarrow>
     (case repr of
        None \<Rightarrow> (tr, s)
      | Some r \<Rightarrow>
          (case has_dynamic_voids T obj s of (enable_dynamic_voids, s1) \<Rightarrow>
             (tr @ [Has_dynamic_voids obj,
                     Switch_representation obj r False enable_dynamic_voids False],
              switch_representation T obj r False enable_dynamic_voids False s1))))"

definition assign_type :: "'s tools \<Rightarrow> nat \<Rightarrow> nat \<Rightarrow> tool_call list \<times> 's \<Rightarrow> tool_call list \<times> 's" where
  "assign_type T element type ls =
     (case ls of (tr, s) \<Rightarrow>
     (case choose_representation T element
             (tr @ [Run_assign_type element type], run_assign_type T element type s)
      of (repr, tr1, s1) \<Rightarrow>
     (case get_object T element s1 of (obj, s2) \<Rightarrow>
     (case switch_if T obj repr (tr1 @ [Get_object element], s2) of (tr3, s3) \<Rightarrow>
        (tr3 @ [Disable_editing obj], disable_editing T obj s3)))))"

section \<open>Notions used in the statements\<close>

text \<open>\<open>isinstance(obj, bpy.types.Material)\<close>\<close>

fun is_material :: "ref \<Rightarrow> bool" where
  "is_material (MaterialRef m) = True"
| "is_material (ObjectRef n) = False"

text \<open>The calls of the synchronisation pass, and the two calls that remove a product.\<close>

fun is_sync_call :: "api_call \<Rightarrow> bool" where
  "is_sync_call (EditObjectPlacement n) = True"
| "is_sync_call (AssignContainer p n) = True"
| "is_sync_call (AssignObject p n) = True"
| "is_sync_call c = False"

definition removals :: "nat list \<Rightarrow> api_call list" where
  "removals to_delete = concat (map (\<lambda>i. [UnlinkElement i, RemoveProduct i]) to_delete)"

text \<open>
  The entries of the id map whose Blender object no longer exists: those bound to an
  object, not a material, whose handle is not among the objects of the scene.
  \<open>dead_products\<close> lists their ids, in the order of the id map.
\<close>

definition gone :: "world \<Rightarrow> nat \<times> ref \<Rightarrow> bool" where
  "gone w item =
     (case snd item of
        ObjectRef n \<Rightarrow> map_of (objects w) n = None
      | MaterialRef m \<Rightarrow> False)"

definition dead_products :: "world \<Rightarrow> (nat \<times> ref) list \<Rightarrow> nat list" where
  "dead_products w items = map fst (filter (gone w) items)"

text \<open>Two worlds with the same live objects.\<close>

definition same_objects :: "world \<Rightarrow> world \<Rightarrow> bool" where
  "same_objects w w' = (\<forall>n. (map_of (objects w') n = None) = (map_of (objects w) n = None))"

text \<open>
  The calls of the synchronisation pass edit placements and relations: they neither free
  an object of the scene nor bring one back.
\<close>

definition keeps_objects :: "ext \<Rightarrow> bool" where
  "keeps_objects X = (\<forall>c w. is_sync_call c \<longrightarrow> same_objects w (snd (effect X c w)))"

text \<open>The selected objects that are alive, and those among them that are meshes.\<close>

definition is_alive :: "world \<Rightarrow> nat \<Rightarrow> bool" where
  "is_alive w obj = (map_of (objects w) obj \<noteq> None)"

definition is_mesh :: "world \<Rightarrow> nat \<Rightarrow> bool" where
  "is_mesh w obj =
     (case map_of (objects w) obj of
        None \<Rightarrow> False
      | Some ob \<Rightarrow> obj_type ob = ''MESH'')"


text \<open>
  The call that \<open>sync_edited_objects\<close> owes to an entry of the set of edited objects:
  none for a falsy entry, a style update for a material, and for an object a
  representation update under its name, or none when the object no longer exists.
\<close>

fun edit_calls :: "world \<Rightarrow> ref option \<Rightarrow> api_call list" where
  "edit_calls w None = []"
| "edit_calls w (Some (MaterialRef m)) = [UpdateStyleColours (MaterialRef m)]"
| "edit_calls w (Some (ObjectRef n)) =
     (case map_of (objects w) n of
        None \<Rightarrow> []
      | Some ob \<Rightarrow> [UpdateRepresentation (obj_name ob)])"

text \<open>
  Two worlds with the same live objects under the same names; and an outside world whose
  calls neither free, bring back nor rename an object.
\<close>

definition same_names :: "world \<Rightarrow> world \<Rightarrow> bool" where
  "same_names w w' =
     (\<forall>n. map_option obj_name (map_of (objects w') n)
          = map_option obj_name (map_of (objects w) n))"

definition keeps_names :: "ext \<Rightarrow> bool" where
  "keeps_names X = (\<forall>c w. same_names w (snd (effect X c w)))"





section \<open>Example scenes\<close>

text \<open>
  Concrete scenes, on which the theorems below are instantiated. \<open>eye\<close> is the identity
  matrix and \<open>translation x\<close> moves by \<open>x\<close> along the first axis. \<open>no_ext\<close> is the
  simplest outside world: calls change nothing and return 0.
\<close>

definition eye :: matrix where
  "eye i j = (if i = j then 1 else 0)"

definition translation :: "real \<Rightarrow> matrix" where
  "translation x = eye(0 := (eye 0)(3 := x))"

definition no_ext :: ext where
  "no_ext = \<lparr>effect = (\<lambda>c w. (Inr 0, w)),
             global2local = (\<lambda>m e n h xa xo. m),
             py_float = (\<lambda>s. None),
             py_str = (\<lambda>x. []),
             calculate_height = (\<lambda>obj w. 0),
             calculate_volumes = (\<lambda>objs w. 0),
             calculate_formwork_area = (\<lambda>objs w. 0),
             calculate_edges_lengths = (\<lambda>objs w. 0),
             calculate_faces_areas = (\<lambda>objs w. 0)\<rparr>"

definition wall_element :: "real \<Rightarrow> element" where
  "wall_element x =
     \<lparr>classes = [''IfcWall'', ''IfcElement'', ''IfcProduct''],
      ObjectPlacement = Some (translation x), container = None, aggregate = None\<rparr>"

definition empty_world :: world where
  "empty_world =
     \<lparr>objects = [], materials = [], collections = [], ifc_file = Map.empty,
      schema = ''IFC4'', file_unit_scale = 1, id_map = [], edited_objs = [],
      has_blender_offset = False, blender_eastings = ''0'', blender_northings = ''0'',
      blender_orthogonal_height = ''0'', blender_x_axis_abscissa = ''1'',
      blender_x_axis_ordinate = ''0'', selected_objects = [], qto_methods = ''HEIGHT'',
      qto_name = ''Qto_WallBaseQuantities'', prop_name = ''Height'', qto_result = ''0''\<rparr>"

text \<open>
  A wall 1000 m from the origin whose IFC placement is 5 mm off its Blender position,
  in a file in metres.
\<close>

definition far_wall :: blender_object where
  "far_wall =
     \<lparr>obj_name = ''IfcWall/Wall'', obj_type = ''MESH'', matrix_world = translation 1000,
      ifc_definition_id = 7, blender_offset_type = ''NONE'',
      users_collection = [''IfcBuildingStorey/Ground'']\<rparr>"

definition far_world :: world where
  "far_world =
     empty_world\<lparr>objects := [(1, far_wall)],
                  ifc_file := [7 \<mapsto> wall_element (1000 + 5 / 1000)]\<rparr>"

text \<open>
  A wall placed at 1000 mm in the file and moved to 2 m in Blender, in a file in
  millimetres.
\<close>

definition moved_wall :: blender_object where
  "moved_wall =
     \<lparr>obj_name = ''IfcWall/Wall'', obj_type = ''MESH'', matrix_world = translation 2,
      ifc_definition_id = 7, blender_offset_type = ''OBJECT_PLACEMENT'',
      users_collection = [''IfcBuildingStorey/Ground'']\<rparr>"

definition moved_world :: world where
  "moved_world =
     empty_world\<lparr>objects := [(1, moved_wall)], ifc_file := [7 \<mapsto> wall_element 1000]\<rparr>"

text \<open>
  A building with one storey and the wall in it: the wall's object lies in the storey's
  collection, which is a child of the building's collection. \<open>site_world c a\<close> is the
  scene when the file says that the wall's container is \<open>c\<close> and the storey's aggregate
  is \<open>a\<close>.
\<close>

definition storey :: blender_object where
  "storey =
     \<lparr>obj_name = ''IfcBuildingStorey/Ground'', obj_type = ''EMPTY'', matrix_world = eye,
      ifc_definition_id = 5, blender_offset_type = ''NONE'',
      users_collection = [''IfcBuildingStorey/Ground'']\<rparr>"

definition building :: blender_object where
  "building =
     \<lparr>obj_name = ''IfcBuilding/Block'', obj_type = ''EMPTY'', matrix_world = eye,
      ifc_definition_id = 4, blender_offset_type = ''NONE'',
      users_collection = [''IfcBuilding/Block'']\<rparr>"

definition spatial_element :: "string \<Rightarrow> nat option \<Rightarrow> element" where
  "spatial_element c a =
     \<lparr>classes = [c, ''IfcSpatialStructureElement'', ''IfcProduct''],
      ObjectPlacement = Some eye, container = None, aggregate = a\<rparr>"

definition site_world :: "nat option \<Rightarrow> nat option \<Rightarrow> world" where
  "site_world c a =
     empty_world
       \<lparr>objects := [(1, moved_wall), (2, storey), (3, building)],
        collections :=
          [\<lparr>coll_name = ''IfcBuilding/Block'', children = [''IfcBuildingStorey/Ground'']\<rparr>,
           \<lparr>coll_name = ''IfcBuildingStorey/Ground'', children = []\<rparr>],
        ifc_file :=
          [7 \<mapsto> (wall_element 2)\<lparr>container := c\<rparr>,
           5 \<mapsto> spatial_element ''IfcBuildingStorey'' a,
           4 \<mapsto> spatial_element ''IfcBuilding'' None]\<rparr>"

text \<open>
  An outside world that has the geolocation transform shift the eastings only, and a
  scene with a Blender offset of 100 mm.
\<close>

definition survey_ext :: ext where
  "survey_ext =
     no_ext\<lparr>global2local := (\<lambda>m e n h xa xo. m(0 := (m 0)(3 := m 0 3 - e))),
            py_float := (\<lambda>s. if s = ''0'' then Some 0 else if s = ''1'' then Some 1
                               else if s = ''100'' then Some 100 else None)\<rparr>"

definition offset_world :: world where
  "offset_world = moved_world\<lparr>has_blender_offset := True, blender_eastings := ''100''\<rparr>"

text \<open>
  The building after the user has deleted a second wall and a material: the id map still
  binds the entity 9 to the freed object 8 and the entity 12 to the freed material 3.
\<close>

definition deleted_world :: world where
  "deleted_world =
     (site_world (Some 5) (Some 4))
       \<lparr>ifc_file := (ifc_file (site_world (Some 5) (Some 4)))(9 \<mapsto> wall_element 0),
        id_map := [(7, ObjectRef 1), (12, MaterialRef 3), (9, ObjectRef 8), (5, ObjectRef 2)]\<rparr>"

text \<open>
  An outside world in which updating the style of a freed material raises
  ReferenceError, and the building with four edited entries: the freed material, a
  falsy entry, the freed object and the wall.
\<close>

definition strict_ext :: ext where
  "strict_ext =
     no_ext\<lparr>effect := (\<lambda>c w.
               case c of
                 UpdateStyleColours obj \<Rightarrow>
                   if should_delete w obj then (Inl ReferenceError, w) else (Inr 0, w)
               | _ \<Rightarrow> (Inr 0, w))\<rparr>"

definition edited_world :: world where
  "edited_world =
     deleted_world
       \<lparr>edited_objs := [Some (MaterialRef 3), None, Some (ObjectRef 8), Some (ObjectRef 1)]\<rparr>"

text \<open>
  Quantities: helpers that give 2.7004 for the height of an object and 12.3456 for each
  object of a list, a \<open>pset.add_qto\<close> that returns the entity 50, and a scene in which
  the wall, the storey (an empty, not a mesh) and a mesh with no IFC id are selected.
\<close>

definition qto_ext :: ext where
  "qto_ext =
     no_ext\<lparr>calculate_height := (\<lambda>obj w. 27004 / 10000),
            calculate_edges_lengths := (\<lambda>objs w. of_nat (length objs) * (123456 / 10000)),
            calculate_faces_areas := (\<lambda>objs w. of_nat (length objs) * (123456 / 10000)),
            calculate_volumes := (\<lambda>objs w. of_nat (length objs) * (123456 / 10000)),
            py_str := (\<lambda>x. if x = 24691 / 1000 then ''24.691'' else ''0.0''),
            effect := (\<lambda>c w. case c of AddQto i n \<Rightarrow> (Inr 50, w) | _ \<Rightarrow> (Inr 0, w))\<rparr>"

definition sketch :: blender_object where
  "sketch =
     \<lparr>obj_name = ''Cube'', obj_type = ''MESH'', matrix_world = eye, ifc_definition_id = 0,
      blender_offset_type = ''NONE'', users_collection = []\<rparr>"

definition selection_world :: world where
  "selection_world =
     (site_world (Some 5) (Some 4))
       \<lparr>objects := [(1, moved_wall), (2, storey), (3, building), (4, sketch)],
        selected_objects := [1, 2, 4]\<rparr>"

text \<open>
  Interfaces for \<open>assign_type\<close> with no state behind them: \<open>body\<close> and \<open>other\<close> give
  the body representation and any representation of an element, and the object of the
  element \<open>e\<close> is \<open>e + 100\<close>.
\<close>

definition table_tools :: "(nat \<rightharpoonup> nat) \<Rightarrow> (nat \<rightharpoonup> nat) \<Rightarrow> unit tools" where
  "table_tools body other =
     \<lparr>run_assign_type = (\<lambda>e t s. s),
      get_body_representation = (\<lambda>e s. (body e, s)),
      get_any_representation = (\<lambda>e s. (other e, s)),
      get_object = (\<lambda>e s. (e + 100, s)),
      has_dynamic_voids = (\<lambda>obj s. (obj = 101, s)),
      switch_representation = (\<lambda>obj r should_reload enable_dynamic_voids is_global s. s),
      disable_editing = (\<lambda>obj s. s)\<rparr>"

section \<open>Lemmas on the model\<close>

lemma allclose_iff:
  "allclose a b rtol atol \<longleftrightarrow> (\<forall>i<4. \<forall>j<4. \<bar>a i j - b i j\<bar> \<le> atol + rtol * \<bar>b i j\<bar>)"
  by (auto simp: allclose_def isclose_def list_all_iff)

lemma calls_perform:
  "calls (snd (perform X d s)) = calls s @ (case d of Inr (Some c) \<Rightarrow> [c] | _ \<Rightarrow> [])"
  by (auto simp: perform_def run_call_def api_def split: sum.splits option.splits prod.splits)

lemma scale_translation_entry:
  "scale_translation m s i j = (if i < 3 \<and> j = 3 then m i j * s else m i j)"
  by (auto simp: scale_translation_def scale_entry_def)

lemma sync_object_placement_decision:
  assumes "deref w n = Inr obj"
    and "by_id w (ifc_definition_id obj) = Inr element"
    and "ObjectPlacement element = Some placement"
    and "ifc_matrix_of X unit_scale w obj placement = Inr M"
  shows "sync_object_placement X unit_scale w n =
      Inr (if \<not> allclose M (matrix_world obj) default_rtol (1 / 10000)
           then Some (EditObjectPlacement n) else None)"
  using assms by (simp add: sync_object_placement_def)

section \<open>Placement synchronisation\<close>

text \<open>
  C1, as the code has it. For an object that is alive and whose IFC element has an
  ObjectPlacement, \<open>sync_object_placement\<close> calls \<open>edit_object_placement\<close>, once, if
  and only if some entry of the IFC-derived matrix \<open>M\<close> is further from the entry \<open>b\<close>
  of the world matrix than \<open>0.0001 + 0.00001 * |b|\<close>: \<open>numpy.allclose\<close> is called
  with \<open>atol=0.0001\<close> and keeps its relative tolerance \<open>rtol=1e-05\<close>. When every entry is
  within 0.0001, no call is made.
\<close>

theorem sync_object_placement_call:
  assumes "deref (world s) n = Inr obj"
    and "by_id (world s) (ifc_definition_id obj) = Inr element"
    and "ObjectPlacement element = Some placement"
    and "ifc_matrix_of X unit_scale (world s) obj placement = Inr M"
  shows "calls (snd (perform X (sync_object_placement X unit_scale (world s) n) s)) =
           calls s @
           (if \<exists>i<4. \<exists>j<4. 1 / 10000 + 1 / 100000 * \<bar>matrix_world obj i j\<bar>
                                 < \<bar>M i j - matrix_world obj i j\<bar>
            then [EditObjectPlacement n] else [])
         \<and> ((\<forall>i<4. \<forall>j<4. \<bar>M i j - matrix_world obj i j\<bar> \<le> 1 / 10000) \<longrightarrow>
              calls (snd (perform X (sync_object_placement X unit_scale (world s) n) s)) = calls s)"
proof -
  let ?B = "matrix_world obj"
  have decision: "sync_object_placement X unit_scale (world s) n =
      Inr (if \<not> allclose M ?B default_rtol (1 / 10000) then Some (EditObjectPlacement n) else None)"
    using assms by (rule sync_object_placement_decision)
  have close: "allclose M ?B default_rtol (1 / 10000) \<longleftrightarrow>
      \<not> (\<exists>i<4. \<exists>j<4. 1 / 10000 + 1 / 100000 * \<bar>?B i j\<bar> < \<bar>M i j - ?B i j\<bar>)"
    unfolding allclose_iff default_rtol_def using not_le by blast
  have first: "calls (snd (perform X (sync_object_placement X unit_scale (world s) n) s)) =
           calls s @
           (if \<exists>i<4. \<exists>j<4. 1 / 10000 + 1 / 100000 * \<bar>?B i j\<bar> < \<bar>M i j - ?B i j\<bar>
            then [EditObjectPlacement n] else [])"
    by (simp add: calls_perform decision close)
  have second: "calls (snd (perform X (sync_object_placement X unit_scale (world s) n) s)) = calls s"
    if within: "\<forall>i<4. \<forall>j<4. \<bar>M i j - ?B i j\<bar> \<le> 1 / 10000"
  proof -
    have "\<not> (\<exists>i<4. \<exists>j<4. 1 / 10000 + 1 / 100000 * \<bar>?B i j\<bar> < \<bar>M i j - ?B i j\<bar>)"
    proof
      assume "\<exists>i<4. \<exists>j<4. 1 / 10000 + 1 / 100000 * \<bar>?B i j\<bar> < \<bar>M i j - ?B i j\<bar>"
      then obtain i j where ij: "i < 4" "j < 4"
        and far: "1 / 10000 + 1 / 100000 * \<bar>?B i j\<bar> < \<bar>M i j - ?B i j\<bar>" by blast
      from within ij have "\<bar>M i j - ?B i j\<bar> \<le> 1 / 10000" by blast
      moreover have "0 \<le> 1 / 100000 * \<bar>?B i j\<bar>" by simp
      ultimately show False using far by linarith
    qed
    with first show ?thesis by simp
  qed
  from first second show ?thesis by blast
qed

text \<open>
  The theorem at the wall moved in Blender: the file says 1000 mm, the scene 2 m, and
  the call is made.
\<close>

theorem sync_object_placement_call_witness:
  "deref moved_world 1 = Inr moved_wall
   \<and> by_id moved_world (ifc_definition_id moved_wall) = Inr (wall_element 1000)
   \<and> ObjectPlacement (wall_element 1000) = Some (translation 1000)
   \<and> ifc_matrix_of no_ext (1 / 1000) moved_world moved_wall (translation 1000)
       = Inr (translation 1)
   \<and> calls (snd (perform no_ext (sync_object_placement no_ext (1 / 1000) moved_world 1)
                \<lparr>calls = [], world = moved_world\<rparr>)) = [EditObjectPlacement 1]"
proof -
  have a: "deref moved_world 1 = Inr moved_wall"
    by (simp add: deref_def moved_world_def empty_world_def)
  have b: "by_id moved_world (ifc_definition_id moved_wall) = Inr (wall_element 1000)"
    by (simp add: by_id_def moved_world_def empty_world_def moved_wall_def)
  have c: "ObjectPlacement (wall_element 1000) = Some (translation 1000)"
    by (simp add: wall_element_def)
  have "scale_translation (translation 1000) (1 / 1000) = translation 1"
    by (rule ext, rule ext) (simp add: scale_translation_entry translation_def eye_def)
  then have d: "ifc_matrix_of no_ext (1 / 1000) moved_world moved_wall (translation 1000)
                  = Inr (translation 1)"
    by (simp add: ifc_matrix_of_def moved_world_def empty_world_def)
  have far: "\<exists>i<4. \<exists>j<4. 1 / 10000 + 1 / 100000 * \<bar>matrix_world moved_wall i j\<bar>
               < \<bar>translation 1 i j - matrix_world moved_wall i j\<bar>"
    by (rule exI [of _ 0], simp, rule exI [of _ 3]) (simp add: moved_wall_def translation_def eye_def)
  show ?thesis
    using a b c d far
      sync_object_placement_call [of "\<lparr>calls = [], world = moved_world\<rparr>" 1 moved_wall
        "wall_element 1000" "translation 1000" no_ext "1 / 1000" "translation 1"]
    by simp
qed

text \<open>
  The claim as written, with a fixed absolute tolerance, fails at the far wall: the
  translation entries differ by 0.005, fifty times 0.0001, yet within
  \<open>0.0001 + 0.00001 * 1000\<close>, and no call is made.
\<close>

theorem sync_object_placement_absolute_tolerance_counterexample:
  "deref far_world 1 = Inr far_wall
   \<and> by_id far_world (ifc_definition_id far_wall) = Inr (wall_element (1000 + 5 / 1000))
   \<and> ObjectPlacement (wall_element (1000 + 5 / 1000)) = Some (translation (1000 + 5 / 1000))
   \<and> ifc_matrix_of no_ext 1 far_world far_wall (translation (1000 + 5 / 1000))
       = Inr (translation (1000 + 5 / 1000))
   \<and> 1 / 10000 < \<bar>translation (1000 + 5 / 1000) 0 3 - matrix_world far_wall 0 3\<bar>
   \<and> calls (snd (perform no_ext (sync_object_placement no_ext 1 far_world 1)
                \<lparr>calls = [], world = far_world\<rparr>)) = []"
proof -
  have a: "deref far_world 1 = Inr far_wall"
    by (simp add: deref_def far_world_def empty_world_def)
  have b: "by_id far_world (ifc_definition_id far_wall) = Inr (wall_element (1000 + 5 / 1000))"
    by (simp add: by_id_def far_world_def empty_world_def far_wall_def)
  have c: "ObjectPlacement (wall_element (1000 + 5 / 1000)) = Some (translation (1000 + 5 / 1000))"
    by (simp add: wall_element_def)
  have "scale_translation (translation (1000 + 5 / 1000)) 1 = translation (1000 + 5 / 1000)"
    by (rule ext, rule ext) (simp add: scale_translation_entry)
  then have d: "ifc_matrix_of no_ext 1 far_world far_wall (translation (1000 + 5 / 1000))
                  = Inr (translation (1000 + 5 / 1000))"
    by (simp add: ifc_matrix_of_def far_world_def empty_world_def)
  have e: "1 / 10000 < \<bar>translation (1000 + 5 / 1000) 0 3 - matrix_world far_wall 0 3\<bar>"
    by (simp add: far_wall_def translation_def)
  have "allclose (translation (1000 + 5 / 1000)) (translation 1000) default_rtol (1 / 10000)"
    by (simp add: allclose_def isclose_def default_rtol_def translation_def eye_def list_all_iff)
  then have "sync_object_placement no_ext 1 far_world 1 = Inr None"
    using a b c d by (simp add: sync_object_placement_def far_wall_def)
  then have f: "calls (snd (perform no_ext (sync_object_placement no_ext 1 far_world 1)
                  \<lparr>calls = [], world = far_world\<rparr>)) = []"
    by (simp add: perform_def)
  from a b c d e f show ?thesis by blast
qed

text \<open>
  C5. The unit scale multiplies the entries of rows 0 to 2 of column 3 and leaves every
  other entry as it is. The scaled matrix goes through \<open>global2local\<close> when the scene
  has a Blender offset and the object's offset type is OBJECT_PLACEMENT (the five
  georeference strings being numbers), and is taken as it is otherwise. The result is the
  matrix that \<open>sync_object_placement\<close> compares with the world matrix.
\<close>

theorem ifc_matrix_of_scaling_and_offset:
  "(\<forall>i j. scale_translation m unit_scale i j =
            (if i < 3 \<and> j = 3 then m i j * unit_scale else m i j))
   \<and> (\<not> (has_blender_offset w \<and> blender_offset_type obj = ''OBJECT_PLACEMENT'') \<longrightarrow>
        ifc_matrix_of X unit_scale w obj m = Inr (scale_translation m unit_scale))
   \<and> (has_blender_offset w \<and> blender_offset_type obj = ''OBJECT_PLACEMENT''
        \<and> py_float X (blender_eastings w) = Some e
        \<and> py_float X (blender_northings w) = Some n
        \<and> py_float X (blender_orthogonal_height w) = Some h
        \<and> py_float X (blender_x_axis_abscissa w) = Some xa
        \<and> py_float X (blender_x_axis_ordinate w) = Some xo \<longrightarrow>
        ifc_matrix_of X unit_scale w obj m =
          Inr (global2local X (scale_translation m unit_scale)
                 (e * unit_scale) (n * unit_scale) (h * unit_scale) xa xo))
   \<and> (deref w r = Inr obj \<and> by_id w (ifc_definition_id obj) = Inr element
        \<and> ObjectPlacement element = Some m
        \<and> ifc_matrix_of X unit_scale w obj m = Inr M \<longrightarrow>
        sync_object_placement X unit_scale w r =
          Inr (if \<not> allclose M (matrix_world obj) default_rtol (1 / 10000)
               then Some (EditObjectPlacement r) else None))"
proof -
  have entries: "\<forall>i j. scale_translation m unit_scale i j =
            (if i < 3 \<and> j = 3 then m i j * unit_scale else m i j)"
    by (simp add: scale_translation_entry)
  have without: "ifc_matrix_of X unit_scale w obj m = Inr (scale_translation m unit_scale)"
    if "\<not> (has_blender_offset w \<and> blender_offset_type obj = ''OBJECT_PLACEMENT'')"
    using that by (auto simp: ifc_matrix_of_def)
  have with_offset: "ifc_matrix_of X unit_scale w obj m =
          Inr (global2local X (scale_translation m unit_scale)
                 (e * unit_scale) (n * unit_scale) (h * unit_scale) xa xo)"
    if "has_blender_offset w \<and> blender_offset_type obj = ''OBJECT_PLACEMENT''
        \<and> py_float X (blender_eastings w) = Some e
        \<and> py_float X (blender_northings w) = Some n
        \<and> py_float X (blender_orthogonal_height w) = Some h
        \<and> py_float X (blender_x_axis_abscissa w) = Some xa
        \<and> py_float X (blender_x_axis_ordinate w) = Some xo"
    using that by (simp add: ifc_matrix_of_def)
  have compared: "sync_object_placement X unit_scale w r =
          Inr (if \<not> allclose M (matrix_world obj) default_rtol (1 / 10000)
               then Some (EditObjectPlacement r) else None)"
    if "deref w r = Inr obj \<and> by_id w (ifc_definition_id obj) = Inr element
        \<and> ObjectPlacement element = Some m
        \<and> ifc_matrix_of X unit_scale w obj m = Inr M"
    using that sync_object_placement_decision [of w r obj element m X unit_scale M] by blast
  from entries without with_offset compared show ?thesis by blast
qed

text \<open>
  The theorem at the scene with an offset: the far wall has no offset type and keeps the
  scaled matrix, the moved wall is shifted by the eastings, and is then found out of
  place.
\<close>

theorem ifc_matrix_of_scaling_and_offset_witness:
  "\<not> (has_blender_offset offset_world \<and> blender_offset_type far_wall = ''OBJECT_PLACEMENT'')
   \<and> ifc_matrix_of survey_ext (1 / 1000) offset_world far_wall (translation 1000)
       = Inr (translation 1)
   \<and> has_blender_offset offset_world \<and> blender_offset_type moved_wall = ''OBJECT_PLACEMENT''
   \<and> py_float survey_ext (blender_eastings offset_world) = Some 100
   \<and> ifc_matrix_of survey_ext (1 / 1000) offset_world moved_wall (translation 1000)
       = Inr (translation (9 / 10))
   \<and> deref offset_world 1 = Inr moved_wall
   \<and> by_id offset_world (ifc_definition_id moved_wall) = Inr (wall_element 1000)
   \<and> sync_object_placement survey_ext (1 / 1000) offset_world 1
       = Inr (Some (EditObjectPlacement 1))"
proof -
  have scaled: "scale_translation (translation 1000) (1 / 1000) = translation 1"
    by (rule ext, rule ext) (simp add: scale_translation_entry translation_def eye_def)
  have shifted: "global2local survey_ext (translation 1) (100 * (1 / 1000)) (0 * (1 / 1000))
                   (0 * (1 / 1000)) 1 0 = translation (9 / 10)"
    by (rule ext, rule ext) (simp add: survey_ext_def translation_def eye_def)
  have a: "\<not> (has_blender_offset offset_world \<and> blender_offset_type far_wall = ''OBJECT_PLACEMENT'')"
    by (simp add: far_wall_def)
  have b: "has_blender_offset offset_world \<and> blender_offset_type moved_wall = ''OBJECT_PLACEMENT''
        \<and> py_float survey_ext (blender_eastings offset_world) = Some 100
        \<and> py_float survey_ext (blender_northings offset_world) = Some 0
        \<and> py_float survey_ext (blender_orthogonal_height offset_world) = Some 0
        \<and> py_float survey_ext (blender_x_axis_abscissa offset_world) = Some 1
        \<and> py_float survey_ext (blender_x_axis_ordinate offset_world) = Some 0"
    by (simp add: offset_world_def moved_world_def empty_world_def moved_wall_def survey_ext_def)
  have c: "deref offset_world 1 = Inr moved_wall"
    by (simp add: deref_def offset_world_def moved_world_def empty_world_def)
  have d: "by_id offset_world (ifc_definition_id moved_wall) = Inr (wall_element 1000)"
    by (simp add: by_id_def offset_world_def moved_world_def empty_world_def moved_wall_def)
  have e: "ObjectPlacement (wall_element 1000) = Some (translation 1000)"
    by (simp add: wall_element_def)
  have f: "\<not> allclose (translation (9 / 10)) (matrix_world moved_wall) default_rtol (1 / 10000)"
    by (auto simp: allclose_def isclose_def default_rtol_def moved_wall_def translation_def eye_def
          list_all_iff intro!: bexI [of _ 0] bexI [of _ 3])
  note first = ifc_matrix_of_scaling_and_offset
      [of "translation 1000" "1 / 1000" offset_world far_wall survey_ext 100 0 0 1 0 1
          "wall_element 1000" "translation 1"]
  note second = ifc_matrix_of_scaling_and_offset
      [of "translation 1000" "1 / 1000" offset_world moved_wall survey_ext 100 0 0 1 0 1
          "wall_element 1000" "translation (9 / 10)"]
  have g: "ifc_matrix_of survey_ext (1 / 1000) offset_world far_wall (translation 1000)
       = Inr (translation 1)"
    using first a scaled by simp
  have h: "ifc_matrix_of survey_ext (1 / 1000) offset_world moved_wall (translation 1000)
       = Inr (translation (9 / 10))"
    using second b scaled shifted by simp
  have i: "sync_object_placement survey_ext (1 / 1000) offset_world 1
       = Inr (Some (EditObjectPlacement 1))"
    using second c d e f h by simp
  from a b c d g h i show ?thesis by blast
qed

section \<open>Container synchronisation\<close>

lemma sync_object_container_resolved:
  "resolve_parent w r = Inr (Some p) \<Longrightarrow> sync_object_container w guid r = Inr (assign_decision r p)"
  by (simp add: sync_object_container_def)

lemma calls_assign_decision:
  assumes "resolve_parent (world s) r = Inr (Some (parent_obj, parent_id, parent, element))"
  shows "calls (snd (perform X (sync_object_container (world s) guid r) s)) =
           calls s @
           (if is_a parent ''IfcSpatialStructureElement''
               \<and> \<not> is_a element ''IfcSpatialStructureElement''
            then (if Some parent_id \<noteq> container element
                  then [AssignContainer parent_obj r] else [])
            else (if Some parent_id \<noteq> aggregate element
                  then [AssignObject parent_obj r] else []))"
  using assms
  by (simp add: calls_perform sync_object_container_resolved assign_decision_def)

lemma resolve_wall:
  "resolve_parent (site_world c a) 1 =
     Inr (Some (2, 5, spatial_element ''IfcBuildingStorey'' a, (wall_element 2)\<lparr>container := c\<rparr>))"
  by (simp add: resolve_parent_def site_world_def empty_world_def deref_def by_id_def moved_wall_def
      storey_def building_def wall_element_def spatial_element_def is_a_def parent_collection_of_def
      collections_get_def objects_get_def)

lemma resolve_storey:
  "resolve_parent (site_world c a) 2 =
     Inr (Some (3, 4, spatial_element ''IfcBuilding'' None, spatial_element ''IfcBuildingStorey'' a))"
  by (simp add: resolve_parent_def site_world_def empty_world_def deref_def by_id_def moved_wall_def
      storey_def building_def wall_element_def spatial_element_def is_a_def parent_collection_of_def
      collections_get_def objects_get_def)


text \<open>
  C2, as the code has it. For an object that reaches the final comparison, at most one
  assign call is made, never both: \<open>assign_container\<close>, when the parent is an
  IfcSpatialStructureElement, the element is not, and the parent is not the element's
  container already; \<open>assign_object\<close>, in the other case, when the parent is not the
  element's aggregate already; and no call otherwise.
\<close>

theorem sync_object_container_assign_calls:
  assumes "resolve_parent (world s) r = Inr (Some (parent_obj, parent_id, parent, element))"
  shows "calls (snd (perform X (sync_object_container (world s) guid r) s)) =
           calls s @
           (if is_a parent ''IfcSpatialStructureElement''
               \<and> \<not> is_a element ''IfcSpatialStructureElement''
            then (if Some parent_id \<noteq> container element
                  then [AssignContainer parent_obj r] else [])
            else (if Some parent_id \<noteq> aggregate element
                  then [AssignObject parent_obj r] else []))"
  using assms by (rule calls_assign_decision)

text \<open>
  The theorem at the wall that the file puts in no container: it is assigned to the
  storey of its collection.
\<close>

theorem sync_object_container_assign_calls_witness:
  "resolve_parent (site_world None None) 1 =
     Inr (Some (2, 5, spatial_element ''IfcBuildingStorey'' None,
                (wall_element 2)\<lparr>container := None\<rparr>))
   \<and> calls (snd (perform no_ext (sync_object_container (site_world None None) 7 1)
                \<lparr>calls = [], world = site_world None None\<rparr>)) = [AssignContainer 2 1]"
  using resolve_wall [of None None]
    sync_object_container_assign_calls [of "\<lparr>calls = [], world = site_world None None\<rparr>" 1 2 5
      "spatial_element ''IfcBuildingStorey'' None" "(wall_element 2)\<lparr>container := None\<rparr>"
      no_ext 7]
  by (simp add: is_a_def spatial_element_def wall_element_def)

text \<open>
  The claim as written, that exactly one of the two is called for every object that
  reaches the final comparison, fails at the wall that the file already puts in the
  storey: the comparison is reached and no call is made.
\<close>

theorem sync_object_container_exactly_one_counterexample:
  "resolve_parent (site_world (Some 5) None) 1 =
     Inr (Some (2, 5, spatial_element ''IfcBuildingStorey'' None,
                (wall_element 2)\<lparr>container := Some 5\<rparr>))
   \<and> calls (snd (perform no_ext (sync_object_container (site_world (Some 5) None) 7 1)
                \<lparr>calls = [], world = site_world (Some 5) None\<rparr>)) = []"
  using resolve_wall [of "Some 5" None]
  by (simp add: sync_object_container_def assign_decision_def perform_def is_a_def
      spatial_element_def wall_element_def)

text \<open>
  C7. For an object that reaches the final comparison: in the spatial case, when the
  parent is the element's container already, and in the aggregation case, when the parent
  is the element's aggregate already, the state is left as it is, log and world. A call
  is made only when the parent differs from the container, or from the aggregate.
\<close>

theorem sync_object_container_unchanged_when_assigned:
  assumes "resolve_parent (world s) r = Inr (Some (parent_obj, parent_id, parent, element))"
  shows "(is_a parent ''IfcSpatialStructureElement''
            \<and> \<not> is_a element ''IfcSpatialStructureElement''
            \<and> container element = Some parent_id \<longrightarrow>
          perform X (sync_object_container (world s) guid r) s = (None, s))
       \<and> (\<not> (is_a parent ''IfcSpatialStructureElement''
               \<and> \<not> is_a element ''IfcSpatialStructureElement'')
            \<and> aggregate element = Some parent_id \<longrightarrow>
          perform X (sync_object_container (world s) guid r) s = (None, s))
       \<and> (calls (snd (perform X (sync_object_container (world s) guid r) s)) \<noteq> calls s \<longrightarrow>
            (if is_a parent ''IfcSpatialStructureElement''
                \<and> \<not> is_a element ''IfcSpatialStructureElement''
             then container element \<noteq> Some parent_id
             else aggregate element \<noteq> Some parent_id))"
proof -
  have decision: "sync_object_container (world s) guid r =
      Inr (assign_decision r (parent_obj, parent_id, parent, element))"
    using assms by (rule sync_object_container_resolved)
  have spatial: "perform X (sync_object_container (world s) guid r) s = (None, s)"
    if "is_a parent ''IfcSpatialStructureElement''
        \<and> \<not> is_a element ''IfcSpatialStructureElement''
        \<and> container element = Some parent_id"
    using that by (simp add: decision assign_decision_def perform_def)
  have aggregation: "perform X (sync_object_container (world s) guid r) s = (None, s)"
    if "\<not> (is_a parent ''IfcSpatialStructureElement''
           \<and> \<not> is_a element ''IfcSpatialStructureElement'')
        \<and> aggregate element = Some parent_id"
    using that by (auto simp: decision assign_decision_def perform_def)
  have divergence: "if is_a parent ''IfcSpatialStructureElement''
                       \<and> \<not> is_a element ''IfcSpatialStructureElement''
                    then container element \<noteq> Some parent_id
                    else aggregate element \<noteq> Some parent_id"
    if "calls (snd (perform X (sync_object_container (world s) guid r) s)) \<noteq> calls s"
    using that calls_assign_decision [OF assms, of X guid]
    by (auto split: if_splits)
  from spatial aggregation divergence show ?thesis by blast
qed

text \<open>
  The theorem at the building whose file agrees with the scene: neither the wall, which
  is in the storey, nor the storey, which is part of the building, is assigned again.
\<close>

theorem sync_object_container_unchanged_when_assigned_witness:
  "resolve_parent (site_world (Some 5) (Some 4)) 1 =
     Inr (Some (2, 5, spatial_element ''IfcBuildingStorey'' (Some 4),
                (wall_element 2)\<lparr>container := Some 5\<rparr>))
   \<and> perform no_ext (sync_object_container (site_world (Some 5) (Some 4)) 7 1)
        \<lparr>calls = [], world = site_world (Some 5) (Some 4)\<rparr>
      = (None, \<lparr>calls = [], world = site_world (Some 5) (Some 4)\<rparr>)
   \<and> resolve_parent (site_world (Some 5) (Some 4)) 2 =
     Inr (Some (3, 4, spatial_element ''IfcBuilding'' None,
                spatial_element ''IfcBuildingStorey'' (Some 4)))
   \<and> perform no_ext (sync_object_container (site_world (Some 5) (Some 4)) 5 2)
        \<lparr>calls = [], world = site_world (Some 5) (Some 4)\<rparr>
      = (None, \<lparr>calls = [], world = site_world (Some 5) (Some 4)\<rparr>)"
  using resolve_wall [of "Some 5" "Some 4"] resolve_storey [of "Some 5" "Some 4"]
    sync_object_container_unchanged_when_assigned
      [of "\<lparr>calls = [], world = site_world (Some 5) (Some 4)\<rparr>" 1 2 5
        "spatial_element ''IfcBuildingStorey'' (Some 4)" "(wall_element 2)\<lparr>container := Some 5\<rparr>"
        no_ext 7]
    sync_object_container_unchanged_when_assigned
      [of "\<lparr>calls = [], world = site_world (Some 5) (Some 4)\<rparr>" 2 3 4
        "spatial_element ''IfcBuilding'' None" "spatial_element ''IfcBuildingStorey'' (Some 4)"
        no_ext 5]
  by (simp add: is_a_def spatial_element_def wall_element_def)

section \<open>The pass over the id map\<close>

lemma run_call_cases:
  assumes "run_call X c s = (r, s1)"
  shows "calls s1 = calls s @ [c] \<and> world s1 = snd (effect X c (world s))"
  using assms by (auto simp: run_call_def api_def split: prod.splits sum.splits)

lemma perform_cases:
  assumes "perform X d s = (r, s1)"
  shows "s1 = s \<or> (\<exists>c. d = Inr (Some c) \<and> calls s1 = calls s @ [c]
                          \<and> world s1 = snd (effect X c (world s)))"
  using assms run_call_cases [of X _ s r s1]
  by (auto simp: perform_def split: sum.splits option.splits)

lemma sync_object_placement_kind:
  "sync_object_placement X unit_scale w n = Inr (Some c) \<Longrightarrow> is_sync_call c"
  by (auto simp: sync_object_placement_def split: sum.splits option.splits if_splits)

lemma sync_object_container_kind:
  "sync_object_container w guid n = Inr (Some c) \<Longrightarrow> is_sync_call c"
  by (auto simp: sync_object_container_def assign_decision_def
      split: sum.splits option.splits if_splits prod.splits)

lemma same_objects_refl: "same_objects w w"
  by (simp add: same_objects_def)

lemma same_objects_trans: "same_objects w w1 \<Longrightarrow> same_objects w1 w2 \<Longrightarrow> same_objects w w2"
  by (simp add: same_objects_def)

lemma perform_sync:
  assumes "perform X d s = (r, s1)" and "\<And>c. d = Inr (Some c) \<Longrightarrow> is_sync_call c"
  shows "\<exists>new. calls s1 = calls s @ new \<and> (\<forall>c\<in>set new. is_sync_call c)
             \<and> (keeps_objects X \<longrightarrow> same_objects (world s) (world s1))"
proof -
  from perform_cases [OF assms(1)] show ?thesis
  proof
    assume "s1 = s"
    then have "calls s1 = calls s @ [] \<and> (\<forall>c\<in>set []. is_sync_call c)
               \<and> (keeps_objects X \<longrightarrow> same_objects (world s) (world s1))"
      by (simp add: same_objects_refl)
    then show ?thesis by blast
  next
    assume "\<exists>c. d = Inr (Some c) \<and> calls s1 = calls s @ [c]
                 \<and> world s1 = snd (effect X c (world s))"
    then obtain c where c: "d = Inr (Some c)" "calls s1 = calls s @ [c]"
      "world s1 = snd (effect X c (world s))" by blast
    from c(1) assms(2) have sync: "is_sync_call c" by blast
    with c(3) have "keeps_objects X \<longrightarrow> same_objects (world s) (world s1)"
      by (simp add: keeps_objects_def)
    with c(2) sync have "calls s1 = calls s @ [c] \<and> (\<forall>c\<in>set [c]. is_sync_call c)
               \<and> (keeps_objects X \<longrightarrow> same_objects (world s) (world s1))" by simp
    then show ?thesis by blast
  qed
qed

lemma sync_object_sync:
  assumes "sync_object X unit_scale i n s = (r, s2)"
  shows "\<exists>new. calls s2 = calls s @ new \<and> (\<forall>c\<in>set new. is_sync_call c)
             \<and> (keeps_objects X \<longrightarrow> same_objects (world s) (world s2))"
proof -
  obtain r1 s1 where p1: "perform X (sync_object_placement X unit_scale (world s) n) s = (r1, s1)"
    by (cases "perform X (sync_object_placement X unit_scale (world s) n) s")
  have "\<exists>new. calls s1 = calls s @ new \<and> (\<forall>c\<in>set new. is_sync_call c)
             \<and> (keeps_objects X \<longrightarrow> same_objects (world s) (world s1))"
    by (rule perform_sync [OF p1]) (rule sync_object_placement_kind)
  then obtain new1 where n1: "calls s1 = calls s @ new1" "\<forall>c\<in>set new1. is_sync_call c"
    "keeps_objects X \<longrightarrow> same_objects (world s) (world s1)" by blast
  show ?thesis
  proof (cases r1)
    case (Some e)
    with assms(1) p1 have "s2 = s1" by (simp add: sync_object_def)
    with n1 show ?thesis by blast
  next
    case None
    with assms(1) p1 have p2: "perform X (sync_object_container (world s1) i n) s1 = (r, s2)"
      by (simp add: sync_object_def)
    have "\<exists>new. calls s2 = calls s1 @ new \<and> (\<forall>c\<in>set new. is_sync_call c)
             \<and> (keeps_objects X \<longrightarrow> same_objects (world s1) (world s2))"
      by (rule perform_sync [OF p2]) (rule sync_object_container_kind)
    then obtain new2 where n2: "calls s2 = calls s1 @ new2" "\<forall>c\<in>set new2. is_sync_call c"
      "keeps_objects X \<longrightarrow> same_objects (world s1) (world s2)" by blast
    from n1 n2 have "calls s2 = calls s @ (new1 @ new2) \<and> (\<forall>c\<in>set (new1 @ new2). is_sync_call c)
        \<and> (keeps_objects X \<longrightarrow> same_objects (world s) (world s2))"
      by (auto intro: same_objects_trans)
    then show ?thesis by blast
  qed
qed

lemma except_ReferenceError_state:
  "except_ReferenceError (r, s) = (r', s') \<Longrightarrow> s' = s"
  by (auto simp: except_ReferenceError_def split: option.splits if_splits)

lemma gone_same_objects:
  "same_objects w w' \<Longrightarrow> gone w' item = gone w item"
  by (cases item) (auto simp: gone_def same_objects_def split: ref.splits)

lemma dead_products_same_objects:
  "same_objects w w' \<Longrightarrow> dead_products w' items = dead_products w items"
  by (simp add: dead_products_def gone_same_objects cong: filter_cong)

lemma sync_loop_result:
  assumes "sync_loop X unit_scale items to_delete s = (None, to_delete', s')"
    and "keeps_objects X"
  shows "\<exists>new. calls s' = calls s @ new \<and> (\<forall>c\<in>set new. is_sync_call c)
             \<and> same_objects (world s) (world s')
             \<and> to_delete' = to_delete @ dead_products (world s) items"
  using assms(1)
proof (induction items arbitrary: to_delete s)
  case Nil
  then have "calls s' = calls s @ [] \<and> (\<forall>c\<in>set []. is_sync_call c)
      \<and> same_objects (world s) (world s')
      \<and> to_delete' = to_delete @ dead_products (world s) []"
    by (simp add: same_objects_refl dead_products_def)
  then show ?case by blast
next
  case (Cons item items)
  obtain i obj where item: "item = (i, obj)" by (cases item)
  show ?case
  proof (cases obj)
    case (MaterialRef m)
    with Cons.prems item have "sync_loop X unit_scale items to_delete s = (None, to_delete', s')"
      by simp
    from Cons.IH [OF this] obtain new where new: "calls s' = calls s @ new"
      "\<forall>c\<in>set new. is_sync_call c" "same_objects (world s) (world s')"
      "to_delete' = to_delete @ dead_products (world s) items" by blast
    have "dead_products (world s) (item # items) = dead_products (world s) items"
      using item MaterialRef by (simp add: dead_products_def gone_def)
    with new show ?thesis by auto
  next
    case (ObjectRef n)
    obtain r0 s0 where so: "sync_object X unit_scale i n s = (r0, s0)"
      by (cases "sync_object X unit_scale i n s")
    obtain r1 s1 where ex: "except_ReferenceError (sync_object X unit_scale i n s) = (r1, s1)"
      by (cases "except_ReferenceError (sync_object X unit_scale i n s)")
    with so have s1: "s1 = s0" by (simp add: except_ReferenceError_state)
    from sync_object_sync [OF so] s1 assms(2)
    obtain new1 where n1: "calls s1 = calls s @ new1" "\<forall>c\<in>set new1. is_sync_call c"
      "same_objects (world s) (world s1)" by blast
    let ?d = "if should_delete (world s1) (ObjectRef n) then to_delete @ [i] else to_delete"
    from Cons.prems item ObjectRef ex have r1: "r1 = None"
      by (cases r1) auto
    with Cons.prems item ObjectRef ex
    have rest: "sync_loop X unit_scale items ?d s1 = (None, to_delete', s')"
      by simp
    from Cons.IH [OF rest] obtain new2 where n2: "calls s' = calls s1 @ new2"
      "\<forall>c\<in>set new2. is_sync_call c" "same_objects (world s1) (world s')"
      "to_delete' = ?d @ dead_products (world s1) items" by blast
    have gone: "should_delete (world s1) (ObjectRef n) = gone (world s) item"
      using n1(3) item ObjectRef by (simp add: should_delete_def gone_def same_objects_def)
    have "dead_products (world s1) items = dead_products (world s) items"
      using n1(3) by (rule dead_products_same_objects)
    with n2(4) gone item have "to_delete' = to_delete @ dead_products (world s) (item # items)"
      by (simp add: dead_products_def)
    moreover from n1 n2 have "calls s' = calls s @ (new1 @ new2)"
      "\<forall>c\<in>set (new1 @ new2). is_sync_call c" "same_objects (world s) (world s')"
      by (auto intro: same_objects_trans)
    ultimately show ?thesis by blast
  qed
qed

lemma remove_loop_calls:
  "remove_loop X to_delete s = (None, s') \<Longrightarrow> calls s' = calls s @ removals to_delete"
proof (induction to_delete arbitrary: s)
  case Nil
  then show ?case by (simp add: removals_def)
next
  case (Cons i to_delete)
  from Cons.prems obtain product where "by_id (world s) i = Inr product"
    by (cases "by_id (world s) i") auto
  with Cons.prems obtain s1 where u: "run_call X (UnlinkElement i) s = (None, s1)"
    by (cases "run_call X (UnlinkElement i) s") (auto split: option.splits)
  with Cons.prems \<open>by_id (world s) i = Inr product\<close>
  obtain s2 where r: "run_call X (RemoveProduct i) s1 = (None, s2)"
    by (cases "run_call X (RemoveProduct i) s1") (auto split: option.splits)
  with Cons.prems u \<open>by_id (world s) i = Inr product\<close>
  have "remove_loop X to_delete s2 = (None, s')" by simp
  from Cons.IH [OF this] run_call_cases [OF u] run_call_cases [OF r]
  show ?case by (simp add: removals_def)
qed


lemma sync_loop_calls:
  assumes "sync_loop X unit_scale items to_delete s = (r, to_delete', s')"
  shows "\<exists>new. calls s' = calls s @ new \<and> (\<forall>c\<in>set new. is_sync_call c)
             \<and> set to_delete' \<subseteq> set to_delete \<union> {i. \<exists>n. (i, ObjectRef n) \<in> set items}"
  using assms
proof (induction items arbitrary: to_delete s)
  case Nil
  then have "calls s' = calls s @ [] \<and> (\<forall>c\<in>set []. is_sync_call c)
      \<and> set to_delete' \<subseteq> set to_delete \<union> {i. \<exists>n. (i, ObjectRef n) \<in> set []}"
    by simp
  then show ?case by blast
next
  case (Cons item items)
  obtain i obj where item: "item = (i, obj)" by (cases item)
  show ?case
  proof (cases obj)
    case (MaterialRef m)
    with Cons.prems item have "sync_loop X unit_scale items to_delete s = (r, to_delete', s')"
      by simp
    from Cons.IH [OF this] obtain new where "calls s' = calls s @ new"
      "\<forall>c\<in>set new. is_sync_call c"
      "set to_delete' \<subseteq> set to_delete \<union> {i. \<exists>n. (i, ObjectRef n) \<in> set items}" by blast
    then have "calls s' = calls s @ new \<and> (\<forall>c\<in>set new. is_sync_call c)
        \<and> set to_delete' \<subseteq> set to_delete \<union> {i. \<exists>n. (i, ObjectRef n) \<in> set (item # items)}"
      by auto
    then show ?thesis by blast
  next
    case (ObjectRef n)
    obtain r0 s0 where so: "sync_object X unit_scale i n s = (r0, s0)"
      by (cases "sync_object X unit_scale i n s")
    obtain r1 s1 where ex: "except_ReferenceError (sync_object X unit_scale i n s) = (r1, s1)"
      by (cases "except_ReferenceError (sync_object X unit_scale i n s)")
    with so have s1: "s1 = s0" by (simp add: except_ReferenceError_state)
    from sync_object_sync [OF so] s1
    obtain new1 where n1: "calls s1 = calls s @ new1" "\<forall>c\<in>set new1. is_sync_call c"
      by blast
    show ?thesis
    proof (cases r1)
      case (Some e)
      with Cons.prems item ObjectRef ex have "to_delete' = to_delete" "s' = s1" by auto
      with n1 have "calls s' = calls s @ new1 \<and> (\<forall>c\<in>set new1. is_sync_call c)
        \<and> set to_delete' \<subseteq> set to_delete \<union> {i. \<exists>n. (i, ObjectRef n) \<in> set (item # items)}"
        by auto
      then show ?thesis by blast
    next
      case None
      let ?d = "if should_delete (world s1) (ObjectRef n) then to_delete @ [i] else to_delete"
      from None Cons.prems item ObjectRef ex
      have rest: "sync_loop X unit_scale items ?d s1 = (r, to_delete', s')"
        by simp
      from Cons.IH [OF rest] obtain new2 where n2: "calls s' = calls s1 @ new2"
        "\<forall>c\<in>set new2. is_sync_call c"
        "set to_delete' \<subseteq> set ?d \<union> {i. \<exists>n. (i, ObjectRef n) \<in> set items}" by blast
      have "set ?d \<subseteq> set to_delete \<union> {i. \<exists>n. (i, ObjectRef n) \<in> set (item # items)}"
        using item ObjectRef by auto
      with n2(3) have "set to_delete' \<subseteq> set to_delete \<union> {i. \<exists>n. (i, ObjectRef n) \<in> set (item # items)}"
        by auto
      moreover from n1 n2 have "calls s' = calls s @ (new1 @ new2)"
        "\<forall>c\<in>set (new1 @ new2). is_sync_call c" by auto
      ultimately show ?thesis by blast
    qed
  qed
qed

lemma sync_loop_filter:
  "sync_loop X unit_scale items to_delete s =
   sync_loop X unit_scale (filter (\<lambda>item. \<not> is_material (snd item)) items) to_delete s"
proof (induction items arbitrary: to_delete s)
  case Nil
  show ?case by simp
next
  case (Cons item items)
  obtain i obj where item: "item = (i, obj)" by (cases item)
  show ?case
  proof (cases obj)
    case (MaterialRef m)
    with item Cons.IH show ?thesis by simp
  next
    case (ObjectRef n)
    with item Cons.IH show ?thesis by (simp split: prod.splits option.splits)
  qed
qed

subsection \<open>The building with a deleted wall\<close>

lemma keeps_objects_no_ext: "keeps_objects no_ext"
  by (simp add: keeps_objects_def no_ext_def same_objects_def)

lemma site_placement_wall:
  "sync_object_placement no_ext 1 deleted_world 1 = Inr None"
  by (simp add: sync_object_placement_def deleted_world_def site_world_def empty_world_def
      deref_def by_id_def moved_wall_def wall_element_def ifc_matrix_of_def
      scale_translation_entry allclose_def isclose_def default_rtol_def list_all_iff)

lemma site_placement_storey:
  "sync_object_placement no_ext 1 deleted_world 2 = Inr None"
  by (simp add: sync_object_placement_def deleted_world_def site_world_def empty_world_def
      deref_def by_id_def storey_def spatial_element_def ifc_matrix_of_def
      scale_translation_entry allclose_def isclose_def default_rtol_def list_all_iff eye_def)

lemma site_placement_gone:
  "sync_object_placement no_ext 1 deleted_world 8 = Inl ReferenceError"
  by (simp add: sync_object_placement_def deleted_world_def site_world_def empty_world_def
      deref_def)

lemma resolve_deleted_wall:
  "resolve_parent deleted_world 1 =
     Inr (Some (2, 5, spatial_element ''IfcBuildingStorey'' (Some 4),
                (wall_element 2)\<lparr>container := Some 5\<rparr>))"
  by (simp add: resolve_parent_def deleted_world_def site_world_def empty_world_def deref_def
      by_id_def moved_wall_def storey_def building_def wall_element_def spatial_element_def
      is_a_def parent_collection_of_def collections_get_def objects_get_def)

lemma resolve_deleted_storey:
  "resolve_parent deleted_world 2 =
     Inr (Some (3, 4, spatial_element ''IfcBuilding'' None,
                spatial_element ''IfcBuildingStorey'' (Some 4)))"
  by (simp add: resolve_parent_def deleted_world_def site_world_def empty_world_def deref_def
      by_id_def moved_wall_def storey_def building_def wall_element_def spatial_element_def
      is_a_def parent_collection_of_def collections_get_def objects_get_def)

lemma site_container_wall:
  "sync_object_container deleted_world 7 1 = Inr None"
  by (simp add: sync_object_container_def resolve_deleted_wall assign_decision_def is_a_def
      spatial_element_def wall_element_def del: One_nat_def)

lemma site_container_storey:
  "sync_object_container deleted_world 5 2 = Inr None"
  by (simp add: sync_object_container_def resolve_deleted_storey assign_decision_def is_a_def
      spatial_element_def)

lemma deleted_world_run:
  "sync_object_placements_and_deletions no_ext \<lparr>calls = [], world = deleted_world\<rparr> =
     (None, \<lparr>calls = [UnlinkElement 9, RemoveProduct 9], world = deleted_world\<rparr>)"
proof -
  have scale: "file_unit_scale deleted_world = 1"
    by (simp add: deleted_world_def site_world_def empty_world_def)
  have items: "id_map deleted_world =
      [(7, ObjectRef 1), (12, MaterialRef 3), (9, ObjectRef 8), (5, ObjectRef 2)]"
    by (simp add: deleted_world_def)
  have dead: "should_delete deleted_world (ObjectRef 8)"
    "\<not> should_delete deleted_world (ObjectRef 1)" "\<not> should_delete deleted_world (ObjectRef 2)"
    by (simp_all add: should_delete_def deleted_world_def site_world_def empty_world_def)
  have loop: "sync_loop no_ext 1 (id_map deleted_world) [] \<lparr>calls = [], world = deleted_world\<rparr>
      = (None, [9], \<lparr>calls = [], world = deleted_world\<rparr>)"
    by (simp add: items sync_object_def perform_def except_ReferenceError_def dead
        site_placement_wall site_placement_storey site_placement_gone
        site_container_wall site_container_storey del: One_nat_def)
  have "by_id deleted_world 9 = Inr (wall_element 0)"
    by (simp add: by_id_def deleted_world_def)
  then have "remove_loop no_ext [9] \<lparr>calls = [], world = deleted_world\<rparr> =
     (None, \<lparr>calls = [UnlinkElement 9, RemoveProduct 9], world = deleted_world\<rparr>)"
    by (simp add: run_call_def api_def no_ext_def)
  with loop scale show ?thesis
    by (simp add: sync_object_placements_and_deletions_def)
qed

lemma deleted_world_dead: "dead_products deleted_world (id_map deleted_world) = [9]"
  by (simp add: dead_products_def gone_def deleted_world_def site_world_def empty_world_def)

subsection \<open>Removals\<close>

text \<open>
  C3, as the code has it. When the function returns, and the calls of the synchronisation
  pass free no object and bring none back, the calls it has made are those of the
  synchronisation pass, followed by the removals: for each id that the id map binds to an
  object, not a material, that no longer exists, and for no other, in the order of the id
  map, \<open>unlink_element\<close> and then \<open>root.remove_product\<close>.
\<close>

theorem sync_object_placements_and_deletions_removals:
  assumes "sync_object_placements_and_deletions X s = (None, s')"
    and "keeps_objects X"
  shows "\<exists>sync_calls.
           calls s' = calls s @ sync_calls @ removals (dead_products (world s) (id_map (world s)))
           \<and> (\<forall>c\<in>set sync_calls. is_sync_call c)"
proof -
  let ?us = "file_unit_scale (world s)"
  obtain r to_delete s1 where loop: "sync_loop X ?us (id_map (world s)) [] s = (r, to_delete, s1)"
    by (cases "sync_loop X ?us (id_map (world s)) [] s")
  with assms(1) have r: "r = None"
    by (cases r) (auto simp: sync_object_placements_and_deletions_def)
  with loop assms(1) have rem: "remove_loop X to_delete s1 = (None, s')"
    by (simp add: sync_object_placements_and_deletions_def)
  from loop r have "sync_loop X ?us (id_map (world s)) [] s = (None, to_delete, s1)" by simp
  from sync_loop_result [OF this assms(2)] obtain new where new: "calls s1 = calls s @ new"
    "\<forall>c\<in>set new. is_sync_call c" "to_delete = dead_products (world s) (id_map (world s))"
    by auto
  from remove_loop_calls [OF rem] new
  have "calls s' = calls s @ new @ removals (dead_products (world s) (id_map (world s)))
        \<and> (\<forall>c\<in>set new. is_sync_call c)" by simp
  then show ?thesis by blast
qed

text \<open>
  The theorem at the building with a deleted wall: the entity 9 is unlinked and removed,
  and nothing else is called.
\<close>

theorem sync_object_placements_and_deletions_removals_witness:
  "sync_object_placements_and_deletions no_ext \<lparr>calls = [], world = deleted_world\<rparr> =
     (None, \<lparr>calls = [UnlinkElement 9, RemoveProduct 9], world = deleted_world\<rparr>)
   \<and> keeps_objects no_ext
   \<and> dead_products deleted_world (id_map deleted_world) = [9]
   \<and> (\<exists>sync_calls.
         [UnlinkElement 9, RemoveProduct 9] = [] @ sync_calls @ removals [9]
         \<and> (\<forall>c\<in>set sync_calls. is_sync_call c))"
  using sync_object_placements_and_deletions_removals
      [OF deleted_world_run keeps_objects_no_ext]
    deleted_world_run keeps_objects_no_ext deleted_world_dead
  by simp

text \<open>
  The claim as written, that every tracked entity whose Blender datablock no longer
  exists is removed, fails at the freed material 3 of the same scene: reading its name
  would raise, so that \<open>should_delete\<close> answers true for it, and the entity 12 that the
  id map binds to it is not removed.
\<close>

theorem sync_object_placements_and_deletions_material_counterexample:
  "(12, MaterialRef 3) \<in> set (id_map deleted_world)
   \<and> should_delete deleted_world (MaterialRef 3)
   \<and> sync_object_placements_and_deletions no_ext \<lparr>calls = [], world = deleted_world\<rparr> =
       (None, \<lparr>calls = [UnlinkElement 9, RemoveProduct 9], world = deleted_world\<rparr>)
   \<and> RemoveProduct 12 \<notin> set [UnlinkElement 9, RemoveProduct 9]"
proof -
  have entry: "(12, MaterialRef 3) \<in> set (id_map deleted_world)"
    by (simp add: deleted_world_def)
  have freed: "should_delete deleted_world (MaterialRef 3)"
    by (simp add: should_delete_def deleted_world_def site_world_def empty_world_def)
  have kept: "RemoveProduct 12 \<notin> set [UnlinkElement 9, RemoveProduct 9]"
    by simp
  from entry freed deleted_world_run kept show ?thesis by blast
qed

subsection \<open>Materials\<close>

lemma set_removals:
  "set (removals to_delete) = UnlinkElement ` set to_delete \<union> RemoveProduct ` set to_delete"
  by (auto simp: removals_def)

lemma is_sync_call_not_removal:
  "is_sync_call c \<Longrightarrow> c \<noteq> UnlinkElement i \<and> c \<noteq> RemoveProduct i"
  by (cases c) auto

text \<open>
  C9. An entry of the id map that is a material ends its iteration at once: the loop goes
  on with the same state and the same deletion list, so that the pass is the pass over the
  id map without its materials. When the function returns, an id that the id map binds to
  a material has been neither unlinked nor removed, whether the material exists or not.
\<close>

theorem sync_loop_skips_materials:
  "sync_loop X unit_scale ((i, MaterialRef m) # items) to_delete s =
     sync_loop X unit_scale items to_delete s
   \<and> sync_loop X unit_scale items to_delete s =
     sync_loop X unit_scale (filter (\<lambda>item. \<not> is_material (snd item)) items) to_delete s
   \<and> (sync_object_placements_and_deletions X s = (None, s')
        \<and> distinct (map fst (id_map (world s)))
        \<and> (i, MaterialRef m) \<in> set (id_map (world s)) \<longrightarrow>
      (\<exists>new. calls s' = calls s @ new
             \<and> UnlinkElement i \<notin> set new \<and> RemoveProduct i \<notin> set new))"
proof -
  have step: "sync_loop X unit_scale ((i, MaterialRef m) # items) to_delete s =
     sync_loop X unit_scale items to_delete s"
    by simp
  have filtered: "sync_loop X unit_scale items to_delete s =
     sync_loop X unit_scale (filter (\<lambda>item. \<not> is_material (snd item)) items) to_delete s"
    by (rule sync_loop_filter)
  have kept: "\<exists>new. calls s' = calls s @ new
             \<and> UnlinkElement i \<notin> set new \<and> RemoveProduct i \<notin> set new"
    if run: "sync_object_placements_and_deletions X s = (None, s')"
      and keys: "distinct (map fst (id_map (world s)))"
      and entry: "(i, MaterialRef m) \<in> set (id_map (world s))"
  proof -
    let ?us = "file_unit_scale (world s)"
    obtain r to_delete s1 where loop: "sync_loop X ?us (id_map (world s)) [] s = (r, to_delete, s1)"
      by (cases "sync_loop X ?us (id_map (world s)) [] s")
    with run have r: "r = None"
      by (cases r) (auto simp: sync_object_placements_and_deletions_def)
    with loop run have rem: "remove_loop X to_delete s1 = (None, s')"
      by (simp add: sync_object_placements_and_deletions_def)
    from sync_loop_calls [OF loop] obtain new1 where new1: "calls s1 = calls s @ new1"
      "\<forall>c\<in>set new1. is_sync_call c"
      "set to_delete \<subseteq> {i. \<exists>n. (i, ObjectRef n) \<in> set (id_map (world s))}" by auto
    have "i \<notin> set to_delete"
    proof
      assume "i \<in> set to_delete"
      with new1(3) obtain n where "(i, ObjectRef n) \<in> set (id_map (world s))" by blast
      with keys entry have "ObjectRef n = MaterialRef m"
        by (meson eq_key_imp_eq_value)
      then show False by simp
    qed
    then have "UnlinkElement i \<notin> set (removals to_delete)"
      "RemoveProduct i \<notin> set (removals to_delete)"
      by (auto simp: set_removals)
    moreover from new1(2) have "UnlinkElement i \<notin> set new1" "RemoveProduct i \<notin> set new1"
      using is_sync_call_not_removal by blast+
    moreover from remove_loop_calls [OF rem] new1(1)
    have "calls s' = calls s @ (new1 @ removals to_delete)" by simp
    ultimately have "calls s' = calls s @ (new1 @ removals to_delete)
        \<and> UnlinkElement i \<notin> set (new1 @ removals to_delete)
        \<and> RemoveProduct i \<notin> set (new1 @ removals to_delete)" by simp
    then show ?thesis by blast
  qed
  from step filtered kept show ?thesis by blast
qed

text \<open>
  The theorem at the building with a deleted material: the material 3 is freed,
  \<open>should_delete\<close> would answer true for it, and its entity 12 stays.
\<close>

theorem sync_loop_skips_materials_witness:
  "sync_object_placements_and_deletions no_ext \<lparr>calls = [], world = deleted_world\<rparr> =
     (None, \<lparr>calls = [UnlinkElement 9, RemoveProduct 9], world = deleted_world\<rparr>)
   \<and> distinct (map fst (id_map deleted_world))
   \<and> (12, MaterialRef 3) \<in> set (id_map deleted_world)
   \<and> should_delete deleted_world (MaterialRef 3)
   \<and> (\<exists>new. [UnlinkElement 9, RemoveProduct 9] = [] @ new
             \<and> UnlinkElement 12 \<notin> set new \<and> RemoveProduct 12 \<notin> set new)"
proof -
  have keys: "distinct (map fst (id_map deleted_world))"
    by (simp add: deleted_world_def)
  have entry: "(12, MaterialRef 3) \<in> set (id_map deleted_world)"
    by (simp add: deleted_world_def)
  have freed: "should_delete deleted_world (MaterialRef 3)"
    by (simp add: should_delete_def deleted_world_def site_world_def empty_world_def)
  from sync_loop_skips_materials
    [of no_ext 1 12 3 "[]" "[]" "\<lparr>calls = [], world = deleted_world\<rparr>"
        "\<lparr>calls = [UnlinkElement 9, RemoveProduct 9], world = deleted_world\<rparr>"]
    deleted_world_run keys entry
  have "\<exists>new. [UnlinkElement 9, RemoveProduct 9] = [] @ new
             \<and> UnlinkElement 12 \<notin> set new \<and> RemoveProduct 12 \<notin> set new"
    by simp
  with deleted_world_run keys entry freed show ?thesis by blast
qed

section \<open>Edited objects\<close>

lemma update_edited_calls:
  assumes "update_edited X obj s = (r, s1)"
  shows "\<exists>new. calls s1 = calls s @ new \<and> length new \<le> 1
           \<and> (\<forall>c\<in>set new. (is_material obj \<and> c = UpdateStyleColours obj)
                             \<or> (\<not> is_material obj \<and> (\<exists>name. c = UpdateRepresentation name)))"
proof (cases obj)
  case (MaterialRef m)
  with assms have "run_call X (UpdateStyleColours obj) s = (r, s1)"
    by (simp add: update_edited_def)
  from run_call_cases [OF this] MaterialRef
  have "calls s1 = calls s @ [UpdateStyleColours obj] \<and> length [UpdateStyleColours obj] \<le> 1
           \<and> (\<forall>c\<in>set [UpdateStyleColours obj]. (is_material obj \<and> c = UpdateStyleColours obj)
                             \<or> (\<not> is_material obj \<and> (\<exists>name. c = UpdateRepresentation name)))"
    by simp
  then show ?thesis by blast
next
  case (ObjectRef n)
  show ?thesis
  proof (cases "deref (world s) n")
    case (Inl e)
    with assms ObjectRef have "s1 = s" by (simp add: update_edited_def)
    then have "calls s1 = calls s @ [] \<and> length ([] :: api_call list) \<le> 1
           \<and> (\<forall>c\<in>set []. (is_material obj \<and> c = UpdateStyleColours obj)
                             \<or> (\<not> is_material obj \<and> (\<exists>name. c = UpdateRepresentation name)))"
      by simp
    then show ?thesis by blast
  next
    case (Inr ob)
    with assms ObjectRef have "run_call X (UpdateRepresentation (obj_name ob)) s = (r, s1)"
      by (simp add: update_edited_def)
    from run_call_cases [OF this] ObjectRef
    have "calls s1 = calls s @ [UpdateRepresentation (obj_name ob)]
           \<and> length [UpdateRepresentation (obj_name ob)] \<le> 1
           \<and> (\<forall>c\<in>set [UpdateRepresentation (obj_name ob)].
                   (is_material obj \<and> c = UpdateStyleColours obj)
                   \<or> (\<not> is_material obj \<and> (\<exists>name. c = UpdateRepresentation name)))"
      by simp
    then show ?thesis by blast
  qed
qed

lemma edited_loop_calls:
  assumes "edited_loop X objs s = (r, s')"
  shows "\<exists>new. calls s' = calls s @ new \<and> length new \<le> length objs
           \<and> (\<forall>c\<in>set new.
                 (\<exists>obj. Some obj \<in> set objs \<and> is_material obj \<and> c = UpdateStyleColours obj)
                 \<or> (\<exists>name. c = UpdateRepresentation name))"
  using assms
proof (induction objs arbitrary: s)
  case Nil
  then have "calls s' = calls s @ [] \<and> length ([] :: api_call list) \<le> length ([] :: ref option list)
           \<and> (\<forall>c\<in>set [].
                 (\<exists>obj. Some obj \<in> set [] \<and> is_material obj \<and> c = UpdateStyleColours obj)
                 \<or> (\<exists>name. c = UpdateRepresentation name))"
    by simp
  then show ?case by blast
next
  case (Cons entry objs)
  show ?case
  proof (cases entry)
    case None
    with Cons.prems have "edited_loop X objs s = (r, s')" by simp
    from Cons.IH [OF this] obtain new where new: "calls s' = calls s @ new"
      "length new \<le> length objs"
      "\<forall>c\<in>set new.
         (\<exists>obj. Some obj \<in> set objs \<and> is_material obj \<and> c = UpdateStyleColours obj)
         \<or> (\<exists>name. c = UpdateRepresentation name)" by blast
    then have "calls s' = calls s @ new \<and> length new \<le> length (entry # objs)
           \<and> (\<forall>c\<in>set new.
                 (\<exists>obj. Some obj \<in> set (entry # objs) \<and> is_material obj \<and> c = UpdateStyleColours obj)
                 \<or> (\<exists>name. c = UpdateRepresentation name))"
      by auto
    then show ?thesis by blast
  next
    case (Some obj)
    obtain r0 s0 where up: "update_edited X obj s = (r0, s0)"
      by (cases "update_edited X obj s")
    obtain r1 s1 where ex: "except_ReferenceError (update_edited X obj s) = (r1, s1)"
      by (cases "except_ReferenceError (update_edited X obj s)")
    with up have s1: "s1 = s0" by (simp add: except_ReferenceError_state)
    from update_edited_calls [OF up] s1 obtain new1 where n1: "calls s1 = calls s @ new1"
      "length new1 \<le> 1"
      "\<forall>c\<in>set new1. (is_material obj \<and> c = UpdateStyleColours obj)
                       \<or> (\<not> is_material obj \<and> (\<exists>name. c = UpdateRepresentation name))"
      by blast
    show ?thesis
    proof (cases r1)
      case (Some e)
      with Cons.prems \<open>entry = Some obj\<close> ex have "s' = s1" by auto
      with n1 \<open>entry = Some obj\<close>
      have "calls s' = calls s @ new1 \<and> length new1 \<le> length (entry # objs)
           \<and> (\<forall>c\<in>set new1.
                 (\<exists>obj. Some obj \<in> set (entry # objs) \<and> is_material obj \<and> c = UpdateStyleColours obj)
                 \<or> (\<exists>name. c = UpdateRepresentation name))"
        by auto
      then show ?thesis by blast
    next
      case None
      with Cons.prems \<open>entry = Some obj\<close> ex have "edited_loop X objs s1 = (r, s')" by simp
      from Cons.IH [OF this] obtain new2 where n2: "calls s' = calls s1 @ new2"
        "length new2 \<le> length objs"
        "\<forall>c\<in>set new2.
           (\<exists>obj. Some obj \<in> set objs \<and> is_material obj \<and> c = UpdateStyleColours obj)
           \<or> (\<exists>name. c = UpdateRepresentation name)" by blast
      from n1 n2 \<open>entry = Some obj\<close>
      have "calls s' = calls s @ (new1 @ new2) \<and> length (new1 @ new2) \<le> length (entry # objs)
           \<and> (\<forall>c\<in>set (new1 @ new2).
                 (\<exists>obj. Some obj \<in> set (entry # objs) \<and> is_material obj \<and> c = UpdateStyleColours obj)
                 \<or> (\<exists>name. c = UpdateRepresentation name))"
        by auto
      then show ?thesis by blast
    qed
  qed
qed

lemma same_names_refl: "same_names w w"
  by (simp add: same_names_def)

lemma same_names_trans: "same_names w w1 \<Longrightarrow> same_names w1 w2 \<Longrightarrow> same_names w w2"
  by (simp add: same_names_def)

lemma edit_calls_same_names:
  "same_names w w' \<Longrightarrow> edit_calls w' entry = edit_calls w entry"
proof (cases entry)
  case None
  then show ?thesis by simp
next
  case (Some obj)
  assume same: "same_names w w'"
  show ?thesis
  proof (cases obj)
    case (MaterialRef m)
    with Some show ?thesis by simp
  next
    case (ObjectRef n)
    from same have "map_option obj_name (map_of (objects w') n)
          = map_option obj_name (map_of (objects w) n)"
      by (simp add: same_names_def)
    with Some ObjectRef show ?thesis
      by (cases "map_of (objects w') n"; cases "map_of (objects w) n") auto
  qed
qed

lemma run_call_keeps_names:
  "run_call X c s = (r, s1) \<Longrightarrow> keeps_names X \<Longrightarrow> same_names (world s) (world s1)"
  using run_call_cases [of X c s r s1] by (simp add: keeps_names_def)

lemma update_edited_exact:
  assumes "update_edited X obj s = (r, s1)"
  shows "calls s1 = calls s @ edit_calls (world s) (Some obj)
         \<and> (keeps_names X \<longrightarrow> same_names (world s) (world s1))"
proof (cases obj)
  case (MaterialRef m)
  with assms have run: "run_call X (UpdateStyleColours obj) s = (r, s1)"
    by (simp add: update_edited_def)
  from run_call_cases [OF run] run_call_keeps_names [OF run] MaterialRef
  show ?thesis by simp
next
  case (ObjectRef n)
  show ?thesis
  proof (cases "map_of (objects (world s)) n")
    case None
    with assms ObjectRef have "s1 = s" by (simp add: update_edited_def deref_def)
    with None ObjectRef show ?thesis by (simp add: same_names_refl)
  next
    case (Some ob)
    with assms ObjectRef have run: "run_call X (UpdateRepresentation (obj_name ob)) s = (r, s1)"
      by (simp add: update_edited_def deref_def)
    from run_call_cases [OF run] run_call_keeps_names [OF run] Some ObjectRef
    show ?thesis by simp
  qed
qed

lemma edited_loop_exact:
  assumes "edited_loop X objs s = (None, s')" and "keeps_names X"
  shows "calls s' = calls s @ concat (map (edit_calls (world s)) objs)
         \<and> same_names (world s) (world s')"
  using assms(1)
proof (induction objs arbitrary: s)
  case Nil
  then show ?case by (simp add: same_names_refl)
next
  case (Cons entry objs)
  show ?case
  proof (cases entry)
    case None
    with Cons.prems have "edited_loop X objs s = (None, s')" by simp
    from Cons.IH [OF this] None show ?thesis by simp
  next
    case (Some obj)
    obtain r0 s0 where up: "update_edited X obj s = (r0, s0)"
      by (cases "update_edited X obj s")
    obtain r1 s1 where ex: "except_ReferenceError (update_edited X obj s) = (r1, s1)"
      by (cases "except_ReferenceError (update_edited X obj s)")
    with up have s1: "s1 = s0" by (simp add: except_ReferenceError_state)
    from update_edited_exact [OF up] s1 assms(2)
    have one: "calls s1 = calls s @ edit_calls (world s) (Some obj)"
      and same: "same_names (world s) (world s1)" by simp_all
    from Cons.prems Some ex have r1: "r1 = None" by (cases r1) auto
    with Cons.prems Some ex have "edited_loop X objs s1 = (None, s')" by simp
    from Cons.IH [OF this]
    have rest: "calls s' = calls s1 @ concat (map (edit_calls (world s1)) objs)"
      and same': "same_names (world s1) (world s')" by simp_all
    have "map (edit_calls (world s1)) objs = map (edit_calls (world s)) objs"
      using same by (simp add: edit_calls_same_names)
    with one rest Some have "calls s' = calls s @ concat (map (edit_calls (world s)) (entry # objs))"
      by simp
    moreover from same same' have "same_names (world s) (world s')"
      by (rule same_names_trans)
    ultimately show ?thesis by blast
  qed
qed

text \<open>
  C8. When \<open>sync_edited_objects\<close> returns, the set of edited objects is empty. The
  calls it has made are at most one for each entry of the set: a style update for an entry
  that is a material, a representation update for an object; a ReferenceError is caught
  for each entry on its own, and any other exception ends the function before the set is
  cleared. When the calls neither free, bring back nor rename an object, the calls made
  are exactly, entry by entry in the order of the iteration: the style update of the
  entry, for a material; the representation update under the object's name, for an object
  that exists; and none for a falsy entry or an object that no longer exists.
\<close>

theorem sync_edited_objects_clears:
  assumes "sync_edited_objects X s = (None, s')"
  shows "edited_objs (world s') = []
     \<and> (\<exists>new. calls s' = calls s @ new
           \<and> length new \<le> length (edited_objs (world s))
           \<and> (\<forall>c\<in>set new.
                 (\<exists>obj. Some obj \<in> set (edited_objs (world s)) \<and> is_material obj
                        \<and> c = UpdateStyleColours obj)
                 \<or> (\<exists>name. c = UpdateRepresentation name)))
     \<and> (keeps_names X \<longrightarrow>
          calls s' = calls s @ concat (map (edit_calls (world s)) (edited_objs (world s))))"
proof -
  obtain r s1 where loop: "edited_loop X (edited_objs (world s)) s = (r, s1)"
    by (cases "edited_loop X (edited_objs (world s)) s")
  with assms have r: "r = None"
    by (cases r) (auto simp: sync_edited_objects_def)
  with loop assms have s': "s' = s1\<lparr>world := (world s1)\<lparr>edited_objs := []\<rparr>\<rparr>"
    by (simp add: sync_edited_objects_def)
  then have cleared: "edited_objs (world s') = []" and same: "calls s' = calls s1"
    by simp_all
  from edited_loop_calls [OF loop] same
  have bound: "\<exists>new. calls s' = calls s @ new
           \<and> length new \<le> length (edited_objs (world s))
           \<and> (\<forall>c\<in>set new.
                 (\<exists>obj. Some obj \<in> set (edited_objs (world s)) \<and> is_material obj
                        \<and> c = UpdateStyleColours obj)
                 \<or> (\<exists>name. c = UpdateRepresentation name))"
    by simp
  have exact: "calls s' = calls s @ concat (map (edit_calls (world s)) (edited_objs (world s)))"
    if "keeps_names X"
  proof -
    from loop r have "edited_loop X (edited_objs (world s)) s = (None, s1)" by simp
    from edited_loop_exact [OF this that] same show ?thesis by simp
  qed
  from cleared bound exact show ?thesis by blast
qed

text \<open>
  The theorem at the building with four edited entries: the style update of the freed
  material raises ReferenceError, the falsy entry and the freed object lead to no call,
  the wall is updated under its name, and the set is empty at the end.
\<close>

theorem sync_edited_objects_clears_witness:
  "sync_edited_objects strict_ext \<lparr>calls = [], world = edited_world\<rparr> =
     (None, \<lparr>calls = [UpdateStyleColours (MaterialRef 3), UpdateRepresentation ''IfcWall/Wall''],
             world = edited_world\<lparr>edited_objs := []\<rparr>\<rparr>)
   \<and> keeps_names strict_ext
   \<and> edited_objs (edited_world\<lparr>edited_objs := []\<rparr>) = []
   \<and> concat (map (edit_calls edited_world) (edited_objs edited_world)) =
       [UpdateStyleColours (MaterialRef 3), UpdateRepresentation ''IfcWall/Wall'']
   \<and> [UpdateStyleColours (MaterialRef 3), UpdateRepresentation ''IfcWall/Wall''] =
       [] @ concat (map (edit_calls edited_world) (edited_objs edited_world))"
proof -
  have freed: "should_delete edited_world (MaterialRef 3)"
    by (simp add: should_delete_def edited_world_def deleted_world_def site_world_def
        empty_world_def)
  have style: "run_call strict_ext (UpdateStyleColours (MaterialRef 3))
                 \<lparr>calls = [], world = edited_world\<rparr> =
               (Some ReferenceError,
                \<lparr>calls = [UpdateStyleColours (MaterialRef 3)], world = edited_world\<rparr>)"
    using freed by (simp add: run_call_def api_def strict_ext_def no_ext_def)
  have gone: "deref edited_world 8 = Inl ReferenceError"
    by (simp add: deref_def edited_world_def deleted_world_def site_world_def empty_world_def)
  have wall: "deref edited_world 1 = Inr moved_wall"
    by (simp add: deref_def edited_world_def deleted_world_def site_world_def empty_world_def)
  have name: "obj_name moved_wall = ''IfcWall/Wall''"
    by (simp add: moved_wall_def)
  have repr: "run_call strict_ext (UpdateRepresentation ''IfcWall/Wall'')
                 \<lparr>calls = [UpdateStyleColours (MaterialRef 3)], world = edited_world\<rparr> =
               (None, \<lparr>calls = [UpdateStyleColours (MaterialRef 3),
                                 UpdateRepresentation ''IfcWall/Wall''], world = edited_world\<rparr>)"
    by (simp add: run_call_def api_def strict_ext_def no_ext_def)
  have entries: "edited_objs edited_world =
      [Some (MaterialRef 3), None, Some (ObjectRef 8), Some (ObjectRef 1)]"
    by (simp add: edited_world_def)
  have run: "sync_edited_objects strict_ext \<lparr>calls = [], world = edited_world\<rparr> =
     (None, \<lparr>calls = [UpdateStyleColours (MaterialRef 3), UpdateRepresentation ''IfcWall/Wall''],
             world = edited_world\<lparr>edited_objs := []\<rparr>\<rparr>)"
    by (simp add: sync_edited_objects_def entries update_edited_def style gone wall name repr
        except_ReferenceError_def del: One_nat_def)
  have keeps: "keeps_names strict_ext"
    by (simp add: keeps_names_def same_names_def strict_ext_def no_ext_def
        split: api_call.splits)
  have owed: "concat (map (edit_calls edited_world) (edited_objs edited_world)) =
       [UpdateStyleColours (MaterialRef 3), UpdateRepresentation ''IfcWall/Wall'']"
    by (simp add: entries edited_world_def deleted_world_def site_world_def empty_world_def
        moved_wall_def)
  from sync_edited_objects_clears [OF run] keeps
  have "edited_objs (edited_world\<lparr>edited_objs := []\<rparr>) = []"
    and "[UpdateStyleColours (MaterialRef 3), UpdateRepresentation ''IfcWall/Wall''] =
       [] @ concat (map (edit_calls edited_world) (edited_objs edited_world))"
    by simp_all
  with run keeps owed show ?thesis by blast
qed

section \<open>Quantity take-off\<close>

lemma mesh_objects_alive:
  "list_all (is_alive w) objs \<Longrightarrow> mesh_objects w objs = Inr (filter (is_mesh w) objs)"
  by (induction objs) (auto simp: is_alive_def is_mesh_def deref_def)

lemma calculate_execute_alive:
  assumes "list_all (is_alive context) (selected_objects context)"
  shows "calculate_execute helper X context =
     Inr ({''FINISHED''},
          context\<lparr>qto_result :=
            py_str X (py_round (helper (filter (is_mesh context) (selected_objects context))
                                  context) 3)\<rparr>)"
  using mesh_objects_alive [OF assms] by (simp add: calculate_execute_def)

text \<open>
  C6. When the selected objects are alive, each of the three operators passes to its
  helper the selected objects whose type is MESH, in the order of the selection, stores
  \<open>str(round(result, 3))\<close> in \<open>qto_result\<close>, changes nothing else, and returns
  \<open>{"FINISHED"}\<close>.
\<close>

theorem calculate_operators_result:
  assumes "list_all (is_alive context) (selected_objects context)"
  shows "CalculateEdgeLengths_execute X context =
           Inr ({''FINISHED''},
                context\<lparr>qto_result :=
                  py_str X (py_round (calculate_edges_lengths X
                    (filter (is_mesh context) (selected_objects context)) context) 3)\<rparr>)
       \<and> CalculateFaceAreas_execute X context =
           Inr ({''FINISHED''},
                context\<lparr>qto_result :=
                  py_str X (py_round (calculate_faces_areas X
                    (filter (is_mesh context) (selected_objects context)) context) 3)\<rparr>)
       \<and> CalculateObjectVolumes_execute X context =
           Inr ({''FINISHED''},
                context\<lparr>qto_result :=
                  py_str X (py_round (calculate_volumes X
                    (filter (is_mesh context) (selected_objects context)) context) 3)\<rparr>)"
  using calculate_execute_alive [OF assms]
  by (simp add: CalculateEdgeLengths_execute_def CalculateFaceAreas_execute_def
      CalculateObjectVolumes_execute_def)

lemma selection_alive: "list_all (is_alive selection_world) (selected_objects selection_world)"
  by (simp add: is_alive_def selection_world_def)

lemma selection_meshes:
  "filter (is_mesh selection_world) (selected_objects selection_world) = [1, 4]"
  by (simp add: is_mesh_def selection_world_def moved_wall_def storey_def sketch_def)

lemma round_length: "py_round (2 * (123456 / 10000)) 3 = 24691 / 1000"
  by (simp add: py_round_def Let_def)

text \<open>
  The theorem at the selection of the wall, the storey and the sketch: the helpers get
  the wall and the sketch, give 24.6912, and the result stored is 24.691.
\<close>

theorem calculate_operators_result_witness:
  "list_all (is_alive selection_world) (selected_objects selection_world)
   \<and> filter (is_mesh selection_world) (selected_objects selection_world) = [1, 4]
   \<and> CalculateEdgeLengths_execute qto_ext selection_world =
       Inr ({''FINISHED''}, selection_world\<lparr>qto_result := ''24.691''\<rparr>)
   \<and> CalculateFaceAreas_execute qto_ext selection_world =
       Inr ({''FINISHED''}, selection_world\<lparr>qto_result := ''24.691''\<rparr>)
   \<and> CalculateObjectVolumes_execute qto_ext selection_world =
       Inr ({''FINISHED''}, selection_world\<lparr>qto_result := ''24.691''\<rparr>)"
proof -
  have "py_str qto_ext (py_round (calculate_edges_lengths qto_ext [1, 4] selection_world) 3)
          = ''24.691''"
    "py_str qto_ext (py_round (calculate_faces_areas qto_ext [1, 4] selection_world) 3)
          = ''24.691''"
    "py_str qto_ext (py_round (calculate_volumes qto_ext [1, 4] selection_world) 3)
          = ''24.691''"
    using round_length by (simp_all add: qto_ext_def no_ext_def)
  with calculate_operators_result [OF selection_alive, of qto_ext] selection_alive
    selection_meshes
  show ?thesis by simp
qed

subsection \<open>Storing quantities\<close>

















section \<open>Assigning a type\<close>

text \<open>
  C10. \<open>assign_type\<close> runs \<open>type.assign_type\<close> first. If the element has a body
  representation, the object is switched to it; if it has none but has some other
  representation, the object is switched to that one; if it has none at all, no switch is
  made. In each of the three cases, and so always, the last call disables editing on the
  object.
\<close>

theorem assign_type_trace:
  "(get_body_representation T element (run_assign_type T element type s) = (Some r, s1)
      \<and> get_object T element s1 = (obj, s2)
      \<and> has_dynamic_voids T obj s2 = (voids, s3) \<longrightarrow>
    assign_type T element type (tr, s) =
      (tr @ [Run_assign_type element type, Get_body_representation element,
             Get_object element, Has_dynamic_voids obj,
             Switch_representation obj r False voids False, Disable_editing obj],
       disable_editing T obj (switch_representation T obj r False voids False s3)))
   \<and> (get_body_representation T element (run_assign_type T element type s) = (None, s1)
      \<and> get_any_representation T element s1 = (Some r, s1')
      \<and> get_object T element s1' = (obj, s2)
      \<and> has_dynamic_voids T obj s2 = (voids, s3) \<longrightarrow>
    assign_type T element type (tr, s) =
      (tr @ [Run_assign_type element type, Get_body_representation element,
             Get_any_representation element, Get_object element, Has_dynamic_voids obj,
             Switch_representation obj r False voids False, Disable_editing obj],
       disable_editing T obj (switch_representation T obj r False voids False s3)))
   \<and> (get_body_representation T element (run_assign_type T element type s) = (None, s1)
      \<and> get_any_representation T element s1 = (None, s1')
      \<and> get_object T element s1' = (obj, s2) \<longrightarrow>
    assign_type T element type (tr, s) =
      (tr @ [Run_assign_type element type, Get_body_representation element,
             Get_any_representation element, Get_object element, Disable_editing obj],
       disable_editing T obj s2))
   \<and> (\<exists>middle obj'. fst (assign_type T element type (tr, s)) =
         tr @ [Run_assign_type element type] @ middle @ [Disable_editing obj'])"
proof -
  have body: "assign_type T element type (tr, s) =
      (tr @ [Run_assign_type element type, Get_body_representation element,
             Get_object element, Has_dynamic_voids obj,
             Switch_representation obj r False voids False, Disable_editing obj],
       disable_editing T obj (switch_representation T obj r False voids False s3))"
    if "get_body_representation T element (run_assign_type T element type s) = (Some r, s1)
      \<and> get_object T element s1 = (obj, s2)
      \<and> has_dynamic_voids T obj s2 = (voids, s3)"
    using that by (simp add: assign_type_def choose_representation_def switch_if_def)
  have other: "assign_type T element type (tr, s) =
      (tr @ [Run_assign_type element type, Get_body_representation element,
             Get_any_representation element, Get_object element, Has_dynamic_voids obj,
             Switch_representation obj r False voids False, Disable_editing obj],
       disable_editing T obj (switch_representation T obj r False voids False s3))"
    if "get_body_representation T element (run_assign_type T element type s) = (None, s1)
      \<and> get_any_representation T element s1 = (Some r, s1')
      \<and> get_object T element s1' = (obj, s2)
      \<and> has_dynamic_voids T obj s2 = (voids, s3)"
    using that by (simp add: assign_type_def choose_representation_def switch_if_def)
  have neither: "assign_type T element type (tr, s) =
      (tr @ [Run_assign_type element type, Get_body_representation element,
             Get_any_representation element, Get_object element, Disable_editing obj],
       disable_editing T obj s2)"
    if "get_body_representation T element (run_assign_type T element type s) = (None, s1)
      \<and> get_any_representation T element s1 = (None, s1')
      \<and> get_object T element s1' = (obj, s2)"
    using that by (simp add: assign_type_def choose_representation_def switch_if_def)
  have ends: "\<exists>middle obj'. fst (assign_type T element type (tr, s)) =
         tr @ [Run_assign_type element type] @ middle @ [Disable_editing obj']"
  proof -
    obtain repr tr1 s1 where ch: "choose_representation T element
        (tr @ [Run_assign_type element type], run_assign_type T element type s) = (repr, tr1, s1)"
      by (metis prod_cases3)
    then obtain m1 where m1: "tr1 = tr @ [Run_assign_type element type] @ m1"
      by (auto simp: choose_representation_def split: prod.splits if_splits)
    obtain obj s2 where ob: "get_object T element s1 = (obj, s2)"
      by (cases "get_object T element s1")
    obtain tr3 s3 where sw: "switch_if T obj repr (tr1 @ [Get_object element], s2) = (tr3, s3)"
      by (cases "switch_if T obj repr (tr1 @ [Get_object element], s2)")
    then obtain m2 where m2: "tr3 = tr1 @ [Get_object element] @ m2"
      by (auto simp: switch_if_def split: prod.splits option.splits)
    from ch ob sw m1 m2
    have "fst (assign_type T element type (tr, s)) =
         tr @ [Run_assign_type element type] @ (m1 @ [Get_object element] @ m2)
            @ [Disable_editing obj]"
      by (simp add: assign_type_def)
    then show ?thesis by blast
  qed
  from body other neither ends show ?thesis by blast
qed

text \<open>
  The theorem at three elements: the first has a body representation, the second has
  another representation only, the third has none.
\<close>

theorem assign_type_trace_witness:
  "assign_type (table_tools [1 \<mapsto> 11] [1 \<mapsto> 12, 2 \<mapsto> 22]) 1 9 ([], ()) =
     ([Run_assign_type 1 9, Get_body_representation 1, Get_object 1, Has_dynamic_voids 101,
       Switch_representation 101 11 False True False, Disable_editing 101], ())
   \<and> assign_type (table_tools [1 \<mapsto> 11] [1 \<mapsto> 12, 2 \<mapsto> 22]) 2 9 ([], ()) =
     ([Run_assign_type 2 9, Get_body_representation 2, Get_any_representation 2, Get_object 2,
       Has_dynamic_voids 102, Switch_representation 102 22 False False False,
       Disable_editing 102], ())
   \<and> assign_type (table_tools [1 \<mapsto> 11] [1 \<mapsto> 12, 2 \<mapsto> 22]) 3 9 ([], ()) =
     ([Run_assign_type 3 9, Get_body_representation 3, Get_any_representation 3, Get_object 3,
       Disable_editing 103], ())"
proof -
  let ?T = "table_tools [1 \<mapsto> 11] [1 \<mapsto> 12, 2 \<mapsto> 22]"
  note with_body = assign_type_trace [where T = "?T" and element = 1 and type = 9 and s = "()" and r = 11
      and ?s1.0 = "()" and s1' = "()" and obj = 101 and ?s2.0 = "()" and voids = True
      and ?s3.0 = "()" and tr = "[]"]
  note with_other = assign_type_trace [where T = "?T" and element = 2 and type = 9 and s = "()" and r = 22
      and ?s1.0 = "()" and s1' = "()" and obj = 102 and ?s2.0 = "()" and voids = False
      and ?s3.0 = "()" and tr = "[]"]
  note with_none = assign_type_trace [where T = "?T" and element = 3 and type = 9 and s = "()" and r = 0
      and ?s1.0 = "()" and s1' = "()" and obj = 103 and ?s2.0 = "()" and voids = False
      and ?s3.0 = "()" and tr = "[]"]
  have a: "assign_type ?T 1 9 ([], ()) =
     ([Run_assign_type 1 9, Get_body_representation 1, Get_object 1, Has_dynamic_voids 101,
       Switch_representation 101 11 False True False, Disable_editing 101], ())"
    using with_body by (simp add: table_tools_def)
  have b: "assign_type ?T 2 9 ([], ()) =
     ([Run_assign_type 2 9, Get_body_representation 2, Get_any_representation 2, Get_object 2,
       Has_dynamic_voids 102, Switch_representation 102 22 False False False,
       Disable_editing 102], ())"
    using with_other by (simp add: table_tools_def)
  have c: "assign_type ?T 3 9 ([], ()) =
     ([Run_assign_type 3 9, Get_body_representation 3, Get_any_representation 3, Get_object 3,
       Disable_editing 103], ())"
    using with_none by (simp add: table_tools_def)
  from a b c show ?thesis by blast
qed

end
